theory Spec2Isabelle
  imports Complex_Main
begin

section \<open>Diet tracker: a shallow embedding of app.py\<close>

text \<open>
  The program is a Streamlit script over a Google spreadsheet. The spreadsheet client
  (gspread), the widget library and the clock are its environment. The embedding makes
  them explicit:
  \<^item> a worksheet is the list of its rows, a row the list of its cells;
  \<^item> the spreadsheet, the schedule of remote failures and the banners shown to the
    user form the \<open>world\<close> that every operation takes and returns;
  \<^item> a raised exception is the \<open>Inl\<close> branch of the result;
  \<^item> the widget values of one run of the script are the record \<open>inputs\<close>.
  A Python float is modelled by the rational it denotes; the binary rounding of the
  double is not modelled. The authentication at the start of the script is not part of
  the model: a world is a spreadsheet that has been opened. Banner texts are kept
  without their pictographs, and an exception is rendered by its class name.
\<close>

subsection \<open>Cells, rows, worksheets\<close>

datatype cell = Str string | Num rat

type_synonym row = "cell list"
type_synonym sheet = "row list"

text \<open>A row read as a dictionary: the pairs of header cell and value, in column order.\<close>

type_synonym pyrec = "(cell \<times> cell) list"

datatype exn = WorksheetNotFound | APIError | KeyError string | ValueError | TypeError

datatype banner = Success string | Error string | Warning string | Info string

record world =
  sheets :: "(string \<times> sheet) list"
  faults :: "bool list"
  ui :: "banner list"

type_synonym 'a io = "world \<Rightarrow> (exn + 'a) \<times> world"

definition then_io :: "'a io \<Rightarrow> ('a \<Rightarrow> 'b io) \<Rightarrow> 'b io" where
  "then_io m f w = (case m w of (Inl e, w') \<Rightarrow> (Inl e, w') | (Inr x, w') \<Rightarrow> f x w')"

definition return_io :: "'a \<Rightarrow> 'a io" where
  "return_io x w = (Inr x, w)"

subsection \<open>The widget library: banners\<close>

definition st_success :: "string \<Rightarrow> world \<Rightarrow> world" where
  "st_success m w = w\<lparr>ui := ui w @ [Success m]\<rparr>"

definition st_error :: "string \<Rightarrow> world \<Rightarrow> world" where
  "st_error m w = w\<lparr>ui := ui w @ [Error m]\<rparr>"

definition st_warning :: "string \<Rightarrow> world \<Rightarrow> world" where
  "st_warning m w = w\<lparr>ui := ui w @ [Warning m]\<rparr>"

definition st_info :: "string \<Rightarrow> world \<Rightarrow> world" where
  "st_info m w = w\<lparr>ui := ui w @ [Info m]\<rparr>"

fun exn_text :: "exn \<Rightarrow> string" where
  "exn_text WorksheetNotFound = ''WorksheetNotFound''"
| "exn_text APIError = ''APIError''"
| "exn_text (KeyError k) = k"
| "exn_text ValueError = ''ValueError''"
| "exn_text TypeError = ''TypeError''"

subsection \<open>The spreadsheet client\<close>

text \<open>
  Every remote call consumes one entry of the failure schedule; \<open>True\<close> makes the
  call raise \<open>APIError\<close> and leave the spreadsheet as it is. An exhausted schedule
  means that the call goes through.
\<close>

definition remote_call :: "world \<Rightarrow> bool \<times> world" where
  "remote_call w = (case faults w of [] \<Rightarrow> (False, w) | f # fs \<Rightarrow> (f, w\<lparr>faults := fs\<rparr>))"

definition sheet_of :: "world \<Rightarrow> string \<Rightarrow> sheet option" where
  "sheet_of w name = map_of (sheets w) name"

fun put_sheet :: "string \<Rightarrow> sheet \<Rightarrow> (string \<times> sheet) list \<Rightarrow> (string \<times> sheet) list" where
  "put_sheet name sh [] = []"
| "put_sheet name sh ((n, s) # rest) =
     (if n = name then (n, sh) # rest else (n, s) # put_sheet name sh rest)"

definition worksheet :: "string \<Rightarrow> string io" where
  "worksheet name w =
     (case remote_call w of
        (True, w') \<Rightarrow> (Inl APIError, w')
      | (False, w') \<Rightarrow>
          (case sheet_of w' name of
             None \<Rightarrow> (Inl WorksheetNotFound, w')
           | Some _ \<Rightarrow> (Inr name, w')))"

definition add_worksheet :: "string \<Rightarrow> string io" where
  "add_worksheet name w =
     (case remote_call w of
        (True, w') \<Rightarrow> (Inl APIError, w')
      | (False, w') \<Rightarrow>
          (case sheet_of w' name of
             Some _ \<Rightarrow> (Inl APIError, w')
           | None \<Rightarrow> (Inr name, w'\<lparr>sheets := sheets w' @ [(name, [])]\<rparr>)))"

definition append_row :: "string \<Rightarrow> row \<Rightarrow> unit io" where
  "append_row ws r w =
     (case remote_call w of
        (True, w') \<Rightarrow> (Inl APIError, w')
      | (False, w') \<Rightarrow>
          (case sheet_of w' ws of
             None \<Rightarrow> (Inl APIError, w')
           | Some sh \<Rightarrow> (Inr (), w'\<lparr>sheets := put_sheet ws (sh @ [r]) (sheets w')\<rparr>)))"

text \<open>Cells that were never written read as the empty string.\<close>

definition pad_row :: "nat \<Rightarrow> row \<Rightarrow> row" where
  "pad_row n r = r @ replicate (n - length r) (Str [])"

definition set_cell :: "nat \<Rightarrow> cell \<Rightarrow> row \<Rightarrow> row" where
  "set_cell j v r = (pad_row (Suc j) r)[j := v]"

text \<open>
  \<open>ws.update("B7", v)\<close> writes one cell. The address is the column letter and the
  row number, both counted from one as the spreadsheet does.
\<close>

definition col_index :: "char \<Rightarrow> nat" where
  "col_index c = of_char c - of_char CHR ''A''"

definition set_grid :: "nat \<Rightarrow> nat \<Rightarrow> cell \<Rightarrow> sheet \<Rightarrow> sheet" where
  "set_grid i j v sh =
     (let sh' = sh @ replicate (Suc i - length sh) [] in sh'[i := set_cell j v (sh' ! i)])"

definition ws_update :: "string \<Rightarrow> char \<times> nat \<Rightarrow> cell \<Rightarrow> unit io" where
  "ws_update ws addr v w =
     (case remote_call w of
        (True, w') \<Rightarrow> (Inl APIError, w')
      | (False, w') \<Rightarrow>
          (case sheet_of w' ws of
             None \<Rightarrow> (Inl APIError, w')
           | Some sh \<Rightarrow>
               (if snd addr = 0 then (Inl APIError, w')
                else (Inr (), w'\<lparr>sheets :=
                        put_sheet ws (set_grid (snd addr - 1) (col_index (fst addr)) v sh) (sheets w')\<rparr>))))"

text \<open>
  \<open>get_all_records\<close>: the rows are padded to a common width, the first row gives the
  keys and every later row becomes one dictionary. A dictionary built from pairs keeps
  the last value of a repeated key.
\<close>

definition fill_gaps :: "sheet \<Rightarrow> sheet" where
  "fill_gaps sh = map (pad_row (fold max (map length sh) 0)) sh"

definition records_of :: "sheet \<Rightarrow> pyrec list" where
  "records_of sh = (case fill_gaps sh of [] \<Rightarrow> [] | keys # vals \<Rightarrow> map (zip keys) vals)"

definition dict_get :: "pyrec \<Rightarrow> string \<Rightarrow> cell option" where
  "dict_get d k = map_of (rev d) (Str k)"

definition get_all_records :: "string \<Rightarrow> (pyrec list) io" where
  "get_all_records ws w =
     (case remote_call w of
        (True, w') \<Rightarrow> (Inl APIError, w')
      | (False, w') \<Rightarrow>
          (case sheet_of w' ws of
             None \<Rightarrow> (Inl APIError, w')
           | Some sh \<Rightarrow> (Inr (records_of sh), w')))"

subsection \<open>Configuration\<close>

definition MEALS_SHEET :: string where "MEALS_SHEET = ''Meals''"
definition GOALS_SHEET :: string where "GOALS_SHEET = ''Goals''"
definition NOTES_SHEET :: string where "NOTES_SHEET = ''Daily_Notes''"

definition meals_header :: row where
  "meals_header = [Str ''date'', Str ''time'', Str ''food_name'', Str ''grams'', Str ''protein_g'',
     Str ''carbs_g'', Str ''fat_g'', Str ''calories'', Str ''daily_calorie_goal'',
     Str ''daily_protein_goal'', Str ''notes'']"

definition goals_header :: row where
  "goals_header = [Str ''month_year'', Str ''calorie_goal'', Str ''protein_goal'', Str ''created_at'']"

definition notes_header :: row where
  "notes_header = [Str ''date'', Str ''note'', Str ''created_at'']"

subsection \<open>ensure_worksheet\<close>

definition ensure_worksheet :: "string \<Rightarrow> row \<Rightarrow> string io" where
  "ensure_worksheet name header w =
     (case worksheet name w of
        (Inl WorksheetNotFound, w1) \<Rightarrow>
          (case add_worksheet name w1 of
             (Inl e, w2) \<Rightarrow> (Inl e, w2)
           | (Inr ws, w2) \<Rightarrow>
               (case append_row ws header w2 of
                  (Inl e, w3) \<Rightarrow> (Inl e, w3)
                | (Inr _, w3) \<Rightarrow>
                    worksheet name (st_info (''Worksheet '' @ name @ '' created with headers.'') w3)))
      | (Inl e, w1) \<Rightarrow> (Inl e, w1)
      | (Inr ws, w1) \<Rightarrow> worksheet name w1)"

subsection \<open>Widget values of one run\<close>

record date =
  year :: nat
  month :: nat
  day :: nat

record time =
  hour :: nat
  minute :: nat
  second :: nat

definition digit :: "nat \<Rightarrow> char" where
  "digit n = ''0123456789'' ! (n mod 10)"

definition pad2 :: "nat \<Rightarrow> string" where
  "pad2 n = [digit (n div 10), digit n]"

definition pad4 :: "nat \<Rightarrow> string" where
  "pad4 n = [digit (n div 1000), digit (n div 100), digit (n div 10), digit n]"

fun str_nat :: "nat \<Rightarrow> string" where
  "str_nat n = (if n < 10 then [digit n] else str_nat (n div 10) @ [digit n])"

definition str_int :: "int \<Rightarrow> string" where
  "str_int i = (if i < 0 then ''-'' @ str_nat (nat (- i)) else str_nat (nat i))"

definition strftime_ymd :: "date \<Rightarrow> string" where
  "strftime_ymd d = pad4 (year d) @ ''-'' @ pad2 (month d) @ ''-'' @ pad2 (day d)"

definition strftime_ym :: "date \<Rightarrow> string" where
  "strftime_ym d = pad4 (year d) @ ''-'' @ pad2 (month d)"

definition strftime_hms :: "time \<Rightarrow> string" where
  "strftime_hms t = pad2 (hour t) @ '':'' @ pad2 (minute t) @ '':'' @ pad2 (second t)"

text \<open>\<open>now\<close> is the reading of \<open>datetime.datetime.now().isoformat()\<close> during the run.\<close>

record inputs =
  entry_date :: date
  entry_time :: time
  food_item :: string
  qty :: rat
  calories :: rat
  protein :: rat
  carbs :: rat
  fat :: rat
  entry_notes :: string
  add_btn :: bool
  month_year_label :: string
  calorie_goal_input :: int
  protein_goal_input :: int
  set_goal_btn :: bool
  summary_date :: date
  note_date :: date
  daily_note_text :: string
  save_note_btn :: bool
  now :: string

subsection \<open>Goals logic\<close>

text \<open>The loop of \<open>upsert_goal\<close> over \<open>enumerate(records, start=2)\<close>.\<close>

fun upsert_scan ::
  "string \<Rightarrow> string \<Rightarrow> int \<Rightarrow> int \<Rightarrow> string \<Rightarrow> nat \<Rightarrow> pyrec list \<Rightarrow> string io" where
  "upsert_scan ws month_label cal_goal prot_goal ts i [] =
     then_io (append_row ws [Str month_label, Num (of_int cal_goal), Num (of_int prot_goal), Str ts])
       (\<lambda>_. return_io ''created'')"
| "upsert_scan ws month_label cal_goal prot_goal ts i (r # rs) =
     (if dict_get r ''month_year'' = Some (Str month_label) then
        then_io (ws_update ws (CHR ''B'', i) (Num (of_int cal_goal))) (\<lambda>_.
        then_io (ws_update ws (CHR ''C'', i) (Num (of_int prot_goal))) (\<lambda>_.
        then_io (ws_update ws (CHR ''D'', i) (Str ts)) (\<lambda>_.
        return_io ''updated'')))
      else upsert_scan ws month_label cal_goal prot_goal ts (Suc i) rs)"

definition upsert_goal :: "string \<Rightarrow> string \<Rightarrow> int \<Rightarrow> int \<Rightarrow> string \<Rightarrow> string io" where
  "upsert_goal ws month_label cal_goal prot_goal ts =
     then_io (get_all_records ws) (upsert_scan ws month_label cal_goal prot_goal ts 2)"

definition set_goal_handler :: "inputs \<Rightarrow> unit io" where
  "set_goal_handler inp =
     (if set_goal_btn inp then
        then_io (upsert_goal GOALS_SHEET (month_year_label inp) (calorie_goal_input inp)
                   (protein_goal_input inp) (now inp))
          (\<lambda>result w. (Inr (), st_success
             (''Goal '' @ result @ '' for '' @ month_year_label inp @ '': '' @
              str_int (calorie_goal_input inp) @ '' kcal/day, '' @
              str_int (protein_goal_input inp) @ '' g protein/day'') w))
      else return_io ())"

subsection \<open>Auto-save food entry\<close>

text \<open>
  \<open>round(x, 1)\<close> on a float: the nearest multiple of one tenth, a tie going to the
  even tenth.
\<close>

definition py_round1 :: "rat \<Rightarrow> rat" where
  "py_round1 x =
     (let y = x * 10; n = \<lfloor>y\<rfloor>; d = y - of_int n in
      if d < 1 / 2 then of_int n / 10
      else if 1 / 2 < d then of_int (n + 1) / 10
      else if even n then of_int n / 10 else of_int (n + 1) / 10)"

definition append_meal_row :: "string \<Rightarrow> row \<Rightarrow> unit io" where
  "append_meal_row ws r = append_row ws r"

definition meal_row :: "inputs \<Rightarrow> row" where
  "meal_row inp =
     [Str (strftime_ymd (entry_date inp)),
      Str (strftime_hms (entry_time inp)),
      Str (food_item inp),
      Num (py_round1 (qty inp)),
      Num (py_round1 (protein inp)),
      Num (py_round1 (carbs inp)),
      Num (py_round1 (fat inp)),
      Num (py_round1 (calories inp)),
      Num (of_int (calorie_goal_input inp)),
      Num (of_int (protein_goal_input inp)),
      Str (entry_notes inp)]"

definition add_food_handler :: "inputs \<Rightarrow> unit io" where
  "add_food_handler inp w =
     (if add_btn inp then
        (if food_item inp = [] then (Inr (), st_warning ''Please enter a food name.'' w)
         else
           (case append_meal_row MEALS_SHEET (meal_row inp) w of
              (Inr _, w') \<Rightarrow>
                (Inr (), st_success (''Saved: '' @ food_item inp @ '' ('' @ food_item inp @ '' at '' @
                           strftime_hms (entry_time inp) @ '')'') w')
            | (Inl e, w') \<Rightarrow> (Inr (), st_error (''Save failed: '' @ exn_text e) w')))
      else (Inr (), w))"

subsection \<open>Daily summary and checks\<close>

text \<open>
  A data frame built from a list of dictionaries: its columns are the keys met in the
  dictionaries, its rows the dictionaries. An entry missing from a row is \<open>None\<close>
  (pandas' NaN). Selecting rows keeps the columns.
\<close>

type_synonym dataframe = "cell list \<times> pyrec list"

definition DataFrame :: "pyrec list \<Rightarrow> dataframe" where
  "DataFrame recs = (remdups (concat (map (map fst) recs)), recs)"

definition df_empty :: "dataframe \<Rightarrow> bool" where
  "df_empty df = (snd df = [] \<or> fst df = [])"

definition df_col :: "dataframe \<Rightarrow> string \<Rightarrow> exn + cell option list" where
  "df_col df k =
     (if Str k \<in> set (fst df) then Inr (map (\<lambda>r. dict_get r k) (snd df)) else Inl (KeyError k))"

text \<open>\<open>df[df["date"] == day_str]\<close>, given the date column.\<close>

definition df_select :: "dataframe \<Rightarrow> cell option list \<Rightarrow> string \<Rightarrow> dataframe" where
  "df_select df dates day_str =
     (fst df, map fst (filter (\<lambda>rd. snd rd = Some (Str day_str)) (zip (snd df) dates)))"

text \<open>\<open>float(v)\<close> of a value read from a record.\<close>

fun py_float :: "cell option \<Rightarrow> exn + rat" where
  "py_float None = Inl TypeError"
| "py_float (Some (Num x)) = Inr x"
| "py_float (Some (Str s)) = Inl ValueError"

text \<open>\<open>column.astype(float).sum()\<close>: a text cell raises, a missing entry is skipped.\<close>

fun astype_float_sum :: "cell option list \<Rightarrow> exn + rat" where
  "astype_float_sum [] = Inr 0"
| "astype_float_sum (None # cs) = astype_float_sum cs"
| "astype_float_sum (Some (Str s) # cs) = Inl ValueError"
| "astype_float_sum (Some (Num x) # cs) =
     (case astype_float_sum cs of Inl e \<Rightarrow> Inl e | Inr t \<Rightarrow> Inr (x + t))"

definition col_sum :: "dataframe \<Rightarrow> string \<Rightarrow> exn + rat" where
  "col_sum df k = (case df_col df k of Inl e \<Rightarrow> Inl e | Inr cs \<Rightarrow> astype_float_sum cs)"

record totals =
  sum_cal :: rat
  sum_prot :: rat
  sum_carbs :: rat
  sum_fat :: rat
  sum_fiber :: rat

definition day_totals :: "dataframe \<Rightarrow> exn + totals" where
  "day_totals df_day =
     (case col_sum df_day ''calories_kcal'' of Inl e \<Rightarrow> Inl e | Inr c \<Rightarrow>
     (case col_sum df_day ''protein_g'' of Inl e \<Rightarrow> Inl e | Inr p \<Rightarrow>
     (case col_sum df_day ''carbs_g'' of Inl e \<Rightarrow> Inl e | Inr cb \<Rightarrow>
     (case col_sum df_day ''fat_g'' of Inl e \<Rightarrow> Inl e | Inr f \<Rightarrow>
     (case col_sum df_day ''fiber_g'' of Inl e \<Rightarrow> Inl e | Inr fb \<Rightarrow>
        Inr \<lparr>sum_cal = c, sum_prot = p, sum_carbs = cb, sum_fat = f, sum_fiber = fb\<rparr>)))))"

text \<open>The two marks of the goal check: a tick, ``Exceeded'' and ``Low''.\<close>

datatype flag = Ok | Exceeded | Low

definition cal_ok :: "rat \<Rightarrow> rat \<Rightarrow> flag" where
  "cal_ok s cal_goal = (if s \<le> cal_goal then Ok else Exceeded)"

definition prot_ok :: "rat \<Rightarrow> rat \<Rightarrow> flag" where
  "prot_ok s prot_goal = (if prot_goal \<le> s then Ok else Low)"

datatype goal_view = NoGoal | GoalCheck rat rat flag flag

datatype summary = NoEntriesYet | NoEntriesForDate | DaySummary totals goal_view "pyrec list"

text \<open>The guarded fetch at the head of the summary section.\<close>

definition fetch_meals :: "world \<Rightarrow> pyrec list \<times> world" where
  "fetch_meals w =
     (case get_all_records MEALS_SHEET w of
        (Inr all_meals, w') \<Rightarrow> (all_meals, w')
      | (Inl e, w') \<Rightarrow> ([], st_error (''Failed to fetch meals: '' @ exn_text e) w'))"

definition goal_check :: "string \<Rightarrow> totals \<Rightarrow> pyrec list \<Rightarrow> world \<Rightarrow> (exn + goal_view) \<times> world" where
  "goal_check month_label t goals w =
     (case find (\<lambda>g. dict_get g ''month_year'' = Some (Str month_label)) goals of
        None \<Rightarrow> (Inr NoGoal, st_info ''No goal set for this month. Set one in the left column.'' w)
      | Some goal_row \<Rightarrow>
          (if goal_row = [] then
             (Inr NoGoal, st_info ''No goal set for this month. Set one in the left column.'' w)
           else
             (case py_float (dict_get goal_row ''calorie_goal'') of
                Inl e \<Rightarrow> (Inl e, w)
              | Inr cal_goal \<Rightarrow>
                  (case py_float (dict_get goal_row ''protein_goal'') of
                     Inl e \<Rightarrow> (Inl e, w)
                   | Inr prot_goal \<Rightarrow>
                       (Inr (GoalCheck cal_goal prot_goal
                               (cal_ok (sum_cal t) cal_goal) (prot_ok (sum_prot t) prot_goal)), w)))))"

definition daily_summary :: "inputs \<Rightarrow> summary io" where
  "daily_summary inp w =
     (case fetch_meals w of (all_meals, w1) \<Rightarrow>
        (let meals_df = DataFrame all_meals in
         if df_empty meals_df then (Inr NoEntriesYet, st_info ''No food entries yet.'' w1)
         else
           (let day_str = strftime_ymd (summary_date inp) in
            case df_col meals_df ''date'' of
              Inl e \<Rightarrow> (Inl e, w1)
            | Inr dates \<Rightarrow>
                (let df_day = df_select meals_df dates day_str in
                 if df_empty df_day then
                   (Inr NoEntriesForDate, st_info ''No entries for selected date.'' w1)
                 else
                   (case day_totals df_day of
                      Inl e \<Rightarrow> (Inl e, w1)
                    | Inr t \<Rightarrow>
                        (case get_all_records GOALS_SHEET w1 of
                           (Inl e, w2) \<Rightarrow> (Inl e, w2)
                         | (Inr goals, w2) \<Rightarrow>
                             (case goal_check (strftime_ym (summary_date inp)) t goals w2 of
                                (Inl e, w3) \<Rightarrow> (Inl e, w3)
                              | (Inr gv, w3) \<Rightarrow> (Inr (DaySummary t gv (snd df_day)), w3))))))))"

subsection \<open>Daily notes\<close>

text \<open>
  A text is the list of its code points, and the characters of the model are the code
  points below 256. Among them \<open>str.isspace\<close> holds of the tab, the line feed, the
  vertical tab, the form feed, the carriage return, the four separators
  \<open>0x1C\<close> to \<open>0x1F\<close>, the space, the next-line character \<open>0x85\<close> and
  the no-break space \<open>0xA0\<close>; \<open>str.strip()\<close> removes these at both ends.
\<close>

definition is_space :: "char \<Rightarrow> bool" where
  "is_space c = (c \<in> set [CHR 0x09, CHR 0x0A, CHR 0x0B, CHR 0x0C, CHR 0x0D,
                            CHR 0x1C, CHR 0x1D, CHR 0x1E, CHR 0x1F, CHR 0x20,
                            CHR 0x85, CHR 0xA0])"

definition strip :: "string \<Rightarrow> string" where
  "strip s = rev (dropWhile is_space (rev (dropWhile is_space s)))"

definition save_note_handler :: "inputs \<Rightarrow> unit io" where
  "save_note_handler inp w =
     (if save_note_btn inp then
        (if strip (daily_note_text inp) = [] then (Inr (), st_warning ''Note is empty.'' w)
         else
           (case append_row NOTES_SHEET
                   [Str (strftime_ymd (note_date inp)), Str (daily_note_text inp), Str (now inp)] w of
              (Inr _, w') \<Rightarrow> (Inr (), st_success ''Note saved.'' w')
            | (Inl e, w') \<Rightarrow> (Inr (), st_error (''Failed to save note: '' @ exn_text e) w')))
      else (Inr (), w))"

subsection \<open>One run of the script\<close>

text \<open>
  The script from the worksheet set-up to the notes section. An exception that no
  handler catches ends the run: the sections after it are not executed.
\<close>

definition app :: "inputs \<Rightarrow> summary io" where
  "app inp =
     then_io (ensure_worksheet MEALS_SHEET meals_header) (\<lambda>meals_ws.
     then_io (ensure_worksheet GOALS_SHEET goals_header) (\<lambda>goals_ws.
     then_io (ensure_worksheet NOTES_SHEET notes_header) (\<lambda>notes_ws.
     then_io (set_goal_handler inp) (\<lambda>_.
     then_io (add_food_handler inp) (\<lambda>_.
     then_io (daily_summary inp) (\<lambda>view.
     then_io (save_note_handler inp) (\<lambda>_.
     return_io view)))))))"

subsection \<open>Vocabulary of the properties\<close>

text \<open>
  A world is reliable when no remote call of its schedule fails. \<open>spend\<close> is the
  world after one successful remote call that writes nothing.
\<close>

definition reliable :: "world \<Rightarrow> bool" where
  "reliable w = (True \<notin> set (faults w))"

definition spend :: "world \<Rightarrow> world" where
  "spend w = w\<lparr>faults := tl (faults w)\<rparr>"

text \<open>
  The \<open>month_year\<close> of a goal row is its first cell, the empty string when the row
  is blank; \<open>width\<close> is the common width that \<open>get_all_records\<close> pads to.
\<close>

definition month_year_cell :: "row \<Rightarrow> cell" where
  "month_year_cell r = (case r of [] \<Rightarrow> Str [] | c # _ \<Rightarrow> c)"

definition width :: "sheet \<Rightarrow> nat" where
  "width sh = fold max (map length sh) 0"

text \<open>Example worlds and widget values used to instantiate the theorems.\<close>

definition goal_rows_ex :: "row list" where
  "goal_rows_ex =
     [[Str ''2024-04'', Num 1600, Num 70, Str ''2024-04-01T09:00:00''],
      [Str ''2024-05'', Num 1700, Num 80, Str ''2024-05-01T09:00:00''],
      [Str ''2024-05'', Num 1500, Num 60, Str ''2024-05-02T09:00:00'']]"

definition goal_rows_distinct_ex :: "row list" where
  "goal_rows_distinct_ex =
     [[Str ''2024-04'', Num 1600, Num 70, Str ''2024-04-01T09:00:00''],
      [Str ''2024-05'', Num 1700, Num 80, Str ''2024-05-01T09:00:00'', Str ''kept'']]"

definition world_ex :: "row list \<Rightarrow> row list \<Rightarrow> bool list \<Rightarrow> world" where
  "world_ex meal_rows goal_rows fs =
     \<lparr>sheets = [(MEALS_SHEET, meals_header # meal_rows), (GOALS_SHEET, goals_header # goal_rows),
                (NOTES_SHEET, [notes_header])],
      faults = fs, ui = []\<rparr>"

definition inputs_ex :: inputs where
  "inputs_ex =
     \<lparr>entry_date = \<lparr>year = 2024, month = 5, day = 7\<rparr>,
      entry_time = \<lparr>hour = 8, minute = 30, second = 0\<rparr>,
      food_item = ''Cooked rice'', qty = 100, calories = 2513 / 25, protein = 41 / 4, carbs = 30,
      fat = 5, entry_notes = [], add_btn = True, month_year_label = ''2024-05'',
      calorie_goal_input = 2000, protein_goal_input = 100, set_goal_btn = False,
      summary_date = \<lparr>year = 2024, month = 5, day = 7\<rparr>,
      note_date = \<lparr>year = 2024, month = 5, day = 7\<rparr>,
      daily_note_text = ''Felt fine.'', save_note_btn = False, now = ''2024-05-07T08:30:00''\<rparr>"

text \<open>A value with at most one decimal place is a whole number of tenths.\<close>

definition is_tenth :: "rat \<Rightarrow> bool" where
  "is_tenth v = (of_int \<lfloor>v * 10\<rfloor> = v * 10)"

text \<open>The \<open>date\<close> of a meal row is its first cell, the empty string when the row is blank.\<close>

definition date_cell :: "row \<Rightarrow> cell" where
  "date_cell r = (case r of [] \<Rightarrow> Str [] | c # _ \<Rightarrow> c)"

definition meal_rows_ex :: "row list" where
  "meal_rows_ex =
     [[Str ''2024-05-07'', Str ''08:30:00'', Str ''Cooked rice'', Num 100, Num (41 / 4), Num 30, Num 5,
       Num (502 / 5), Num 1700, Num 80, Str []],
      [Str ''2024-05-07'', Str ''12:00:00'', Str ''Boiled egg'', Num 50, Num 5, Num 1, Num 4,
       Num 50, Num 1700, Num 80, Str []],
      [Str ''2024-05-06'', Str ''19:00:00'', Str ''Lentils'', Num 200, Num 18, Num 40, Num 1,
       Num 230, Num 1700, Num 80, Str []]]"

text \<open>A spreadsheet whose meal table has the columns that the summary section reads.\<close>

definition summary_header_ex :: row where
  "summary_header_ex =
     [Str ''date'', Str ''calories_kcal'', Str ''protein_g'', Str ''carbs_g'', Str ''fat_g'', Str ''fiber_g'']"



text \<open>The same kind of meal table with a blank cell in a column that the summary sums.\<close>

definition blank_cell_world_ex :: world where
  "blank_cell_world_ex =
     \<lparr>sheets = [(MEALS_SHEET, [summary_header_ex,
                   [Str ''2024-05-07'', Str [], Num 70, Num 100, Num 20, Num 5]]),
                (GOALS_SHEET, goals_header # goal_rows_ex), (NOTES_SHEET, [notes_header])],
      faults = [], ui = []\<rparr>"

section \<open>Properties\<close>

subsection \<open>The spreadsheet client\<close>

lemma remote_call_reliable: "reliable w \<Longrightarrow> remote_call w = (False, spend w)"
  by (cases "faults w") (auto simp: reliable_def remote_call_def spend_def)

lemma reliable_spend: "reliable w \<Longrightarrow> reliable (spend w)"
  by (cases "faults w") (auto simp: reliable_def spend_def)

lemma spend_fields [simp]: "sheets (spend w) = sheets w" "ui (spend w) = ui w"
  "faults (spend w) = tl (faults w)"
  by (simp_all add: spend_def)

lemma sheet_of_spend [simp]: "sheet_of (spend w) n = sheet_of w n"
  by (simp add: sheet_of_def)

lemma map_of_put_sheet:
  "map_of l name = Some sh \<Longrightarrow> map_of (put_sheet name sh' l) = (map_of l)(name \<mapsto> sh')"
  by (induction l) (auto simp: fun_eq_iff)

lemma sheet_of_put:
  "sheet_of w ws = Some sh \<Longrightarrow>
   sheet_of (w\<lparr>sheets := put_sheet ws sh' (sheets w)\<rparr>) n = (if n = ws then Some sh' else sheet_of w n)"
  by (simp add: sheet_of_def map_of_put_sheet)

lemma append_row_reliable:
  assumes "reliable w" "sheet_of w ws = Some sh"
  shows "append_row ws r w = (Inr (), (spend w)\<lparr>sheets := put_sheet ws (sh @ [r]) (sheets w)\<rparr>)"
  using assms by (simp add: append_row_def remote_call_reliable)

lemma ws_update_reliable:
  assumes "reliable w" "sheet_of w ws = Some sh" "0 < i"
  shows "ws_update ws (c, i) v w =
    (Inr (), (spend w)\<lparr>sheets := put_sheet ws (set_grid (i - 1) (col_index c) v sh) (sheets w)\<rparr>)"
  using assms by (simp add: ws_update_def remote_call_reliable)

lemma get_all_records_reliable:
  assumes "reliable w" "sheet_of w ws = Some sh"
  shows "get_all_records ws w = (Inr (records_of sh), spend w)"
  using assms by (simp add: get_all_records_def remote_call_reliable)

lemma col_index_simps [simp]: "col_index CHR ''B'' = 1" "col_index CHR ''C'' = 2" "col_index CHR ''D'' = 3"
  by (simp_all add: col_index_def)

lemma dict_get_Cons:
  "dict_get ((k, v) # d) key =
     (case dict_get d key of Some x \<Rightarrow> Some x | None \<Rightarrow> if k = Str key then Some v else None)"
  by (auto simp: dict_get_def map_add_def split: option.splits)

lemma dict_get_Nil [simp]: "dict_get [] key = None"
  by (simp add: dict_get_def)

lemma dict_get_absent: "Str key \<notin> set ks \<Longrightarrow> dict_get (zip ks vs) key = None"
  by (induction ks arbitrary: vs) (auto simp: dict_get_Cons zip_Cons1 split: list.splits)

lemma dict_get_zip_nth:
  "i < length ks \<Longrightarrow> length vs = length ks \<Longrightarrow> ks ! i = Str key \<Longrightarrow>
   Str key \<notin> set (drop (Suc i) ks) \<Longrightarrow> dict_get (zip ks vs) key = Some (vs ! i)"
proof (induction ks arbitrary: vs i)
  case Nil
  then show ?case by simp
next
  case (Cons k ks)
  then obtain v vs' where vs: "vs = v # vs'" by (cases vs) auto
  show ?case
  proof (cases i)
    case 0
    with Cons.prems vs show ?thesis
      by (simp add: dict_get_Cons dict_get_absent)
  next
    case (Suc j)
    with Cons.prems vs have "dict_get (zip ks vs') key = Some (vs' ! j)"
      by (intro Cons.IH) auto
    with Suc vs show ?thesis by (simp add: dict_get_Cons)
  qed
qed

lemma reliable_sheets_update [simp]: "reliable (w\<lparr>sheets := x\<rparr>) = reliable w"
  by (simp add: reliable_def)

lemma reliable_ui_update [simp]: "reliable (w\<lparr>ui := x\<rparr>) = reliable w"
  by (simp add: reliable_def)

lemma fold_max_ge: "(a::nat) \<le> fold max xs a"
proof (induction xs arbitrary: a)
  case Nil
  show ?case by simp
next
  case (Cons x xs)
  have "a \<le> max x a" by simp
  also have "\<dots> \<le> fold max xs (max x a)" by (rule Cons.IH)
  finally show ?case by simp
qed

lemma fold_max_mem: "x \<in> set xs \<Longrightarrow> (x::nat) \<le> fold max xs a"
proof (induction xs arbitrary: a)
  case Nil
  then show ?case by simp
next
  case (Cons y ys)
  show ?case
  proof (cases "x = y")
    case True
    have "x \<le> max y a" using True by simp
    also have "\<dots> \<le> fold max ys (max y a)" by (rule fold_max_ge)
    finally show ?thesis by simp
  next
    case False
    with Cons.prems have "x \<in> set ys" by simp
    then show ?thesis by (simp add: Cons.IH)
  qed
qed

lemma width_ge: "r \<in> set sh \<Longrightarrow> length r \<le> width sh"
  by (simp add: width_def fold_max_mem)

lemma length_pad_row: "length r \<le> n \<Longrightarrow> length (pad_row n r) = n"
  by (simp add: pad_row_def)

lemma records_of_Cons:
  "records_of (hdr # rows) =
     map (\<lambda>r. zip (pad_row (width (hdr # rows)) hdr) (pad_row (width (hdr # rows)) r)) rows"
  by (simp add: records_of_def fill_gaps_def width_def)

lemma pad_row_0: "0 < n \<Longrightarrow> pad_row n r ! 0 = month_year_cell r"
  by (cases r; cases n) (simp_all add: pad_row_def month_year_cell_def)

lemma goal_record_month_year:
  assumes "4 \<le> n" "length r \<le> n"
  shows "dict_get (zip (pad_row n goals_header) (pad_row n r)) ''month_year'' = Some (month_year_cell r)"
proof -
  have "dict_get (zip (pad_row n goals_header) (pad_row n r)) ''month_year'' = Some (pad_row n r ! 0)"
  proof (rule dict_get_zip_nth)
    show "0 < length (pad_row n goals_header)" by (simp add: pad_row_def goals_header_def)
    show "length (pad_row n r) = length (pad_row n goals_header)"
      using assms by (simp add: length_pad_row goals_header_def)
    show "pad_row n goals_header ! 0 = Str ''month_year''"
      by (simp add: pad_row_def goals_header_def)
    show "Str ''month_year'' \<notin> set (drop (Suc 0) (pad_row n goals_header))"
      by (auto simp: pad_row_def goals_header_def)
  qed
  with assms show ?thesis by (simp add: pad_row_0)
qed

lemma goal_records_month_year:
  assumes "k < length rows"
  shows "dict_get (records_of (goals_header # rows) ! k) ''month_year'' = Some (month_year_cell (rows ! k))"
proof -
  let ?n = "width (goals_header # rows)"
  have "length goals_header \<le> ?n" by (rule width_ge) simp
  then have n4: "4 \<le> ?n" by (simp add: goals_header_def)
  have "length (rows ! k) \<le> ?n" using assms by (intro width_ge) simp
  with n4 assms show ?thesis by (simp add: records_of_Cons goal_record_month_year)
qed

lemma length_goal_records [simp]: "length (records_of (hdr # rows)) = length rows"
  by (simp add: records_of_Cons)

lemma set_grid_row:
  "k < length rows \<Longrightarrow> set_grid (Suc k) j v (hdr # rows) = hdr # rows[k := set_cell j v (rows ! k)]"
  by (simp add: set_grid_def)

lemma set_cells_BCD:
  "set_cell 3 c (set_cell 2 b (set_cell (Suc 0) a r)) = month_year_cell r # a # b # c # drop 4 r"
  by (cases r; cases "tl r"; cases "tl (tl r)"; cases "tl (tl (tl r))")
     (auto simp: set_cell_def pad_row_def month_year_cell_def numeral_3_eq_3 numeral_2_eq_2)

lemma put_sheet_twice: "put_sheet n a (put_sheet n b l) = put_sheet n a l"
  by (induction l) auto

lemma upsert_scan_miss:
  assumes "reliable w" "sheet_of w ws = Some sh"
    and "\<forall>r \<in> set rs. dict_get r ''month_year'' \<noteq> Some (Str label)"
  shows "upsert_scan ws label cal prot ts i rs w =
           (Inr ''created'',
            (spend w)\<lparr>sheets := put_sheet ws
               (sh @ [[Str label, Num (of_int cal), Num (of_int prot), Str ts]]) (sheets w)\<rparr>)"
  using assms
  by (induction rs arbitrary: i) (simp_all add: then_io_def return_io_def append_row_reliable)

lemma upsert_scan_first:
  assumes rel: "reliable w" and sh: "sheet_of w ws = Some sh" and i: "0 < i"
    and hit: "dict_get r ''month_year'' = Some (Str label)"
  shows "upsert_scan ws label cal prot ts i (r # rs) w =
           (Inr ''updated'',
            (spend (spend (spend w)))\<lparr>sheets := put_sheet ws
               (set_grid (i - 1) 3 (Str ts)
                 (set_grid (i - 1) 2 (Num (of_int prot))
                   (set_grid (i - 1) 1 (Num (of_int cal)) sh))) (sheets w)\<rparr>)"
proof -
  let ?s1 = "set_grid (i - 1) 1 (Num (of_int cal)) sh"
  let ?s2 = "set_grid (i - 1) 2 (Num (of_int prot)) ?s1"
  let ?s3 = "set_grid (i - 1) 3 (Str ts) ?s2"
  let ?w1 = "(spend w)\<lparr>sheets := put_sheet ws ?s1 (sheets w)\<rparr>"
  let ?w2 = "(spend ?w1)\<lparr>sheets := put_sheet ws ?s2 (sheets ?w1)\<rparr>"
  let ?w3 = "(spend ?w2)\<lparr>sheets := put_sheet ws ?s3 (sheets ?w2)\<rparr>"
  have u1: "ws_update ws (CHR ''B'', i) (Num (of_int cal)) w = (Inr (), ?w1)"
    using rel sh i by (simp add: ws_update_reliable)
  have rel1: "reliable ?w1" using rel by (simp add: reliable_spend)
  have sh1: "sheet_of ?w1 ws = Some ?s1"
    using sh by (simp add: sheet_of_def map_of_put_sheet)
  have u2: "ws_update ws (CHR ''C'', i) (Num (of_int prot)) ?w1 = (Inr (), ?w2)"
    using rel1 sh1 i by (simp only: ws_update_reliable col_index_simps)
  have rel2: "reliable ?w2" using rel1 by (simp add: reliable_spend)
  have sh2: "sheet_of ?w2 ws = Some ?s2"
    using sh1 by (simp add: sheet_of_def map_of_put_sheet)
  have u3: "ws_update ws (CHR ''D'', i) (Str ts) ?w2 = (Inr (), ?w3)"
    using rel2 sh2 i by (simp only: ws_update_reliable col_index_simps)
  have w3: "?w3 = (spend (spend (spend w)))\<lparr>sheets := put_sheet ws ?s3 (sheets w)\<rparr>"
    by (simp add: spend_def put_sheet_twice)
  show ?thesis
    using hit u1 u2 u3 w3 by (simp add: then_io_def return_io_def)
qed

lemma upsert_scan_hit:
  assumes "reliable w" "sheet_of w ws = Some sh" "0 < i" "k < length rs"
    and "dict_get (rs ! k) ''month_year'' = Some (Str label)"
    and "\<forall>j<k. dict_get (rs ! j) ''month_year'' \<noteq> Some (Str label)"
  shows "upsert_scan ws label cal prot ts i rs w =
           (Inr ''updated'',
            (spend (spend (spend w)))\<lparr>sheets := put_sheet ws
               (set_grid (i + k - 1) 3 (Str ts)
                 (set_grid (i + k - 1) 2 (Num (of_int prot))
                   (set_grid (i + k - 1) 1 (Num (of_int cal)) sh))) (sheets w)\<rparr>)"
  using assms
proof (induction rs arbitrary: i k)
  case Nil
  then show ?case by simp
next
  case (Cons r rs)
  show ?case
  proof (cases k)
    case 0
    with Cons.prems have "dict_get r ''month_year'' = Some (Str label)" by simp
    from upsert_scan_first [OF Cons.prems(1) Cons.prems(2) Cons.prems(3) this] 0
    show ?thesis by (simp del: upsert_scan.simps)
  next
    case (Suc k')
    from Cons.prems Suc have miss: "dict_get r ''month_year'' \<noteq> Some (Str label)" by auto
    have "upsert_scan ws label cal prot ts (Suc i) rs w =
           (Inr ''updated'',
            (spend (spend (spend w)))\<lparr>sheets := put_sheet ws
               (set_grid (Suc i + k' - 1) 3 (Str ts)
                 (set_grid (Suc i + k' - 1) 2 (Num (of_int prot))
                   (set_grid (Suc i + k' - 1) 1 (Num (of_int cal)) sh))) (sheets w)\<rparr>)"
    proof (rule Cons.IH)
      show "reliable w" "sheet_of w ws = Some sh" by (rule Cons.prems)+
      show "0 < Suc i" by simp
      show "k' < length rs" using Cons.prems Suc by simp
      show "dict_get (rs ! k') ''month_year'' = Some (Str label)" using Cons.prems Suc by simp
      show "\<forall>j<k'. dict_get (rs ! j) ''month_year'' \<noteq> Some (Str label)"
        using Cons.prems Suc by auto
    qed
    with miss Suc show ?thesis by simp
  qed
qed

lemma upsert_goal_updates:
  assumes rel: "reliable w" and sh: "sheet_of w ws = Some (goals_header # rows)"
    and k: "k < length rows" and hit: "month_year_cell (rows ! k) = Str label"
    and first: "\<forall>j<k. month_year_cell (rows ! j) \<noteq> Str label"
  shows "upsert_goal ws label cal prot ts w =
           (Inr ''updated'',
            (spend (spend (spend (spend w))))\<lparr>sheets := put_sheet ws
               (goals_header # rows[k := Str label # Num (of_int cal) # Num (of_int prot) # Str ts
                                        # drop 4 (rows ! k)]) (sheets w)\<rparr>)"
proof -
  let ?rs = "records_of (goals_header # rows)"
  have g: "get_all_records ws w = (Inr ?rs, spend w)"
    using rel sh by (rule get_all_records_reliable)
  have "upsert_scan ws label cal prot ts 2 ?rs (spend w) =
           (Inr ''updated'',
            (spend (spend (spend (spend w))))\<lparr>sheets := put_sheet ws
               (set_grid (2 + k - 1) 3 (Str ts)
                 (set_grid (2 + k - 1) 2 (Num (of_int prot))
                   (set_grid (2 + k - 1) 1 (Num (of_int cal)) (goals_header # rows)))) (sheets (spend w))\<rparr>)"
  proof (rule upsert_scan_hit)
    show "reliable (spend w)" using rel by (rule reliable_spend)
    show "sheet_of (spend w) ws = Some (goals_header # rows)" using sh by simp
    show "0 < (2::nat)" by simp
    show "k < length ?rs" using k by simp
    show "dict_get (?rs ! k) ''month_year'' = Some (Str label)"
      using k hit by (simp add: goal_records_month_year)
    show "\<forall>j<k. dict_get (?rs ! j) ''month_year'' \<noteq> Some (Str label)"
      using k first by (simp add: goal_records_month_year)
  qed
  moreover have "set_grid (2 + k - 1) 3 (Str ts)
                 (set_grid (2 + k - 1) 2 (Num (of_int prot))
                   (set_grid (2 + k - 1) 1 (Num (of_int cal)) (goals_header # rows)))
       = goals_header # rows[k := Str label # Num (of_int cal) # Num (of_int prot) # Str ts
                                        # drop 4 (rows ! k)]"
    using k hit by (simp add: set_grid_row set_cells_BCD)
  ultimately show ?thesis using g by (simp add: upsert_goal_def then_io_def)
qed

lemma upsert_goal_creates:
  assumes rel: "reliable w" and sh: "sheet_of w ws = Some (goals_header # rows)"
    and miss: "\<forall>r \<in> set rows. month_year_cell r \<noteq> Str label"
  shows "upsert_goal ws label cal prot ts w =
           (Inr ''created'',
            (spend (spend w))\<lparr>sheets := put_sheet ws
               (goals_header # rows @ [[Str label, Num (of_int cal), Num (of_int prot), Str ts]])
               (sheets w)\<rparr>)"
proof -
  let ?rs = "records_of (goals_header # rows)"
  have g: "get_all_records ws w = (Inr ?rs, spend w)"
    using rel sh by (rule get_all_records_reliable)
  have "\<forall>r \<in> set ?rs. dict_get r ''month_year'' \<noteq> Some (Str label)"
  proof
    fix r assume "r \<in> set ?rs"
    then obtain k where "k < length ?rs" "r = ?rs ! k" by (auto simp: in_set_conv_nth)
    with miss show "dict_get r ''month_year'' \<noteq> Some (Str label)"
      by (simp add: goal_records_month_year)
  qed
  then have "upsert_scan ws label cal prot ts 2 ?rs (spend w) =
           (Inr ''created'',
            (spend (spend w))\<lparr>sheets := put_sheet ws
               ((goals_header # rows) @ [[Str label, Num (of_int cal), Num (of_int prot), Str ts]])
               (sheets (spend w))\<rparr>)"
    using rel sh by (intro upsert_scan_miss) (simp_all add: reliable_spend)
  with g show ?thesis by (simp add: upsert_goal_def then_io_def)
qed

lemma sheet_of_written:
  "sheet_of w ws = Some sh \<Longrightarrow>
   sheet_of (w'\<lparr>sheets := put_sheet ws sh' (sheets w)\<rparr>) n = (if n = ws then Some sh' else sheet_of w n)"
  by (simp add: sheet_of_def map_of_put_sheet)

lemma reliable_world_ex: "reliable (world_ex ms gs [])"
  by (simp add: reliable_def world_ex_def)

lemma goals_of_world_ex: "sheet_of (world_ex ms gs fs) GOALS_SHEET = Some (goals_header # gs)"
  by (simp add: sheet_of_def world_ex_def MEALS_SHEET_def GOALS_SHEET_def)

subsection \<open>Goal upsert\<close>

text \<open>
  C3. On a goal table (the declared header, then any rows) and with the store answering,
  \<open>upsert_goal\<close> scans the rows in table order. The first row whose
  \<open>month_year\<close> equals the target label gets the new calorie goal, protein goal and
  timestamp in its columns B, C and D, and the function returns \<open>updated\<close>; later
  rows with the same label stay as they are. When no row has the label, one row with the
  label, the two goals and the timestamp is appended and the function returns
  \<open>created\<close>.
\<close>

theorem upsert_goal_first_match:
  assumes "reliable w" and "sheet_of w ws = Some (goals_header # rows)"
  shows "(k < length rows \<and> month_year_cell (rows ! k) = Str label \<and>
            (\<forall>j<k. month_year_cell (rows ! j) \<noteq> Str label) \<longrightarrow>
          fst (upsert_goal ws label cal prot ts w) = Inr ''updated'' \<and>
          sheet_of (snd (upsert_goal ws label cal prot ts w)) ws =
            Some (goals_header #
                  rows[k := Str label # Num (of_int cal) # Num (of_int prot) # Str ts
                             # drop 4 (rows ! k)])) \<and>
         ((\<forall>r \<in> set rows. month_year_cell r \<noteq> Str label) \<longrightarrow>
          fst (upsert_goal ws label cal prot ts w) = Inr ''created'' \<and>
          sheet_of (snd (upsert_goal ws label cal prot ts w)) ws =
            Some (goals_header # rows @ [[Str label, Num (of_int cal), Num (of_int prot), Str ts]]))"
  using assms
  by (auto simp: upsert_goal_updates upsert_goal_creates sheet_of_written)

theorem upsert_goal_first_match_witness:
  "fst (upsert_goal GOALS_SHEET ''2024-05'' 1800 90 ''2024-05-07T08:30:00''
          (world_ex [] goal_rows_ex [])) = Inr ''updated'' \<and>
   sheet_of (snd (upsert_goal GOALS_SHEET ''2024-05'' 1800 90 ''2024-05-07T08:30:00''
          (world_ex [] goal_rows_ex []))) GOALS_SHEET =
     Some [goals_header,
           [Str ''2024-04'', Num 1600, Num 70, Str ''2024-04-01T09:00:00''],
           [Str ''2024-05'', Num 1800, Num 90, Str ''2024-05-07T08:30:00''],
           [Str ''2024-05'', Num 1500, Num 60, Str ''2024-05-02T09:00:00'']] \<and>
   fst (upsert_goal GOALS_SHEET ''2024-06'' 1800 90 ''2024-05-07T08:30:00''
          (world_ex [] goal_rows_ex [])) = Inr ''created'' \<and>
   sheet_of (snd (upsert_goal GOALS_SHEET ''2024-06'' 1800 90 ''2024-05-07T08:30:00''
          (world_ex [] goal_rows_ex []))) GOALS_SHEET =
     Some (goals_header # goal_rows_ex @
           [[Str ''2024-06'', Num 1800, Num 90, Str ''2024-05-07T08:30:00'']])"
proof -
  note th = upsert_goal_first_match [OF reliable_world_ex [of "[]" goal_rows_ex]
      goals_of_world_ex [of "[]" goal_rows_ex "[]"],
      where ts = "''2024-05-07T08:30:00''" and cal = 1800 and prot = 90]
  have hit: "1 < length goal_rows_ex \<and> month_year_cell (goal_rows_ex ! 1) = Str ''2024-05'' \<and>
      (\<forall>j<1. month_year_cell (goal_rows_ex ! j) \<noteq> Str ''2024-05'')"
    by (simp add: goal_rows_ex_def month_year_cell_def)
  have miss: "\<forall>r \<in> set goal_rows_ex. month_year_cell r \<noteq> Str ''2024-06''"
    by (simp add: goal_rows_ex_def month_year_cell_def)
  from th [where k = 1 and label = "''2024-05''"] hit th [where k = 0 and label = "''2024-06''"] miss
  show ?thesis by (simp add: goal_rows_ex_def)
qed

text \<open>
  C4. On a goal table whose rows have distinct month labels and with the store answering:
  upserting a label that is present keeps the number of rows, leaves every other row,
  the header, the row's own \<open>month_year\<close> and its cells beyond column D as they
  were, and puts the two goals and the timestamp in its columns B to D; upserting a label
  that is absent adds exactly one row after the existing ones, which are unchanged. No
  other worksheet changes.
\<close>

theorem upsert_goal_frame:
  assumes "reliable w" and "sheet_of w ws = Some (goals_header # rows)"
    and "distinct (map month_year_cell rows)"
  shows "(Str label \<in> month_year_cell ` set rows \<longrightarrow>
          (\<exists>rows' k. sheet_of (snd (upsert_goal ws label cal prot ts w)) ws = Some (goals_header # rows') \<and>
             length rows' = length rows \<and> k < length rows \<and>
             month_year_cell (rows ! k) = Str label \<and>
             (\<forall>j<length rows. j \<noteq> k \<longrightarrow> rows' ! j = rows ! j) \<and>
             month_year_cell (rows' ! k) = month_year_cell (rows ! k) \<and>
             take 3 (tl (rows' ! k)) = [Num (of_int cal), Num (of_int prot), Str ts] \<and>
             drop 4 (rows' ! k) = drop 4 (rows ! k))) \<and>
         (Str label \<notin> month_year_cell ` set rows \<longrightarrow>
          (\<exists>rows'. sheet_of (snd (upsert_goal ws label cal prot ts w)) ws = Some (goals_header # rows') \<and>
             length rows' = Suc (length rows) \<and> take (length rows) rows' = rows)) \<and>
         (\<forall>n. n \<noteq> ws \<longrightarrow> sheet_of (snd (upsert_goal ws label cal prot ts w)) n = sheet_of w n)"
proof -
  let ?w' = "snd (upsert_goal ws label cal prot ts w)"
  have present: "\<exists>rows' k. sheet_of ?w' ws = Some (goals_header # rows') \<and>
             length rows' = length rows \<and> k < length rows \<and>
             month_year_cell (rows ! k) = Str label \<and>
             (\<forall>j<length rows. j \<noteq> k \<longrightarrow> rows' ! j = rows ! j) \<and>
             month_year_cell (rows' ! k) = month_year_cell (rows ! k) \<and>
             take 3 (tl (rows' ! k)) = [Num (of_int cal), Num (of_int prot), Str ts] \<and>
             drop 4 (rows' ! k) = drop 4 (rows ! k)"
      and others1: "\<forall>n. n \<noteq> ws \<longrightarrow> sheet_of ?w' n = sheet_of w n"
    if "Str label \<in> month_year_cell ` set rows"
  proof -
    from that obtain k where k: "k < length rows" "month_year_cell (rows ! k) = Str label"
      by (auto simp: in_set_conv_nth)
    have first: "\<forall>j<k. month_year_cell (rows ! j) \<noteq> Str label"
    proof (intro allI impI)
      fix j assume jk: "j < k"
      with k have lens: "j < length (map month_year_cell rows)" "k < length (map month_year_cell rows)"
        by simp_all
      have "(map month_year_cell rows ! j = map month_year_cell rows ! k) = (j = k)"
        using assms(3) lens by (rule nth_eq_iff_index_eq)
      with k jk show "month_year_cell (rows ! j) \<noteq> Str label" by simp
    qed
    let ?new = "Str label # Num (of_int cal) # Num (of_int prot) # Str ts # drop 4 (rows ! k)"
    have eq: "upsert_goal ws label cal prot ts w =
           (Inr ''updated'',
            (spend (spend (spend (spend w))))\<lparr>sheets := put_sheet ws
               (goals_header # rows[k := ?new]) (sheets w)\<rparr>)"
      using assms(1,2) k first by (rule upsert_goal_updates)
    have "sheet_of ?w' ws = Some (goals_header # rows[k := ?new])"
      using assms(2) by (simp add: eq sheet_of_written)
    moreover have "month_year_cell ?new = month_year_cell (rows ! k)"
      using k by (simp add: month_year_cell_def)
    ultimately show "\<exists>rows' k. sheet_of ?w' ws = Some (goals_header # rows') \<and>
             length rows' = length rows \<and> k < length rows \<and>
             month_year_cell (rows ! k) = Str label \<and>
             (\<forall>j<length rows. j \<noteq> k \<longrightarrow> rows' ! j = rows ! j) \<and>
             month_year_cell (rows' ! k) = month_year_cell (rows ! k) \<and>
             take 3 (tl (rows' ! k)) = [Num (of_int cal), Num (of_int prot), Str ts] \<and>
             drop 4 (rows' ! k) = drop 4 (rows ! k)"
      using k by (intro exI [of _ "rows[k := ?new]"] exI [of _ k]) (simp add: numeral_3_eq_3)
    show "\<forall>n. n \<noteq> ws \<longrightarrow> sheet_of ?w' n = sheet_of w n"
      using assms(2) by (simp add: eq sheet_of_written)
  qed
  have absent: "\<exists>rows'. sheet_of ?w' ws = Some (goals_header # rows') \<and>
             length rows' = Suc (length rows) \<and> take (length rows) rows' = rows"
      and others2: "\<forall>n. n \<noteq> ws \<longrightarrow> sheet_of ?w' n = sheet_of w n"
    if "Str label \<notin> month_year_cell ` set rows"
  proof -
    from that have miss: "\<forall>r \<in> set rows. month_year_cell r \<noteq> Str label"
      by (metis imageI)
    let ?new = "[Str label, Num (of_int cal), Num (of_int prot), Str ts]"
    have eq: "upsert_goal ws label cal prot ts w =
           (Inr ''created'',
            (spend (spend w))\<lparr>sheets := put_sheet ws (goals_header # rows @ [?new]) (sheets w)\<rparr>)"
      using assms(1,2) miss by (rule upsert_goal_creates)
    have "sheet_of ?w' ws = Some (goals_header # rows @ [?new])"
      using assms(2) by (simp add: eq sheet_of_written)
    then show "\<exists>rows'. sheet_of ?w' ws = Some (goals_header # rows') \<and>
             length rows' = Suc (length rows) \<and> take (length rows) rows' = rows"
      by (intro exI [of _ "rows @ [?new]"]) simp
    show "\<forall>n. n \<noteq> ws \<longrightarrow> sheet_of ?w' n = sheet_of w n"
      using assms(2) by (simp add: eq sheet_of_written)
  qed
  from present absent others1 others2 show ?thesis by blast
qed

theorem upsert_goal_frame_witness:
  "distinct (map month_year_cell goal_rows_distinct_ex) \<and>
   Str ''2024-05'' \<in> month_year_cell ` set goal_rows_distinct_ex \<and>
   Str ''2024-06'' \<notin> month_year_cell ` set goal_rows_distinct_ex \<and>
   (\<exists>rows' k.
      sheet_of (snd (upsert_goal GOALS_SHEET ''2024-05'' 1800 90 ''2024-05-07T08:30:00''
                  (world_ex [] goal_rows_distinct_ex []))) GOALS_SHEET = Some (goals_header # rows') \<and>
      length rows' = length goal_rows_distinct_ex \<and> k < length goal_rows_distinct_ex \<and>
      month_year_cell (goal_rows_distinct_ex ! k) = Str ''2024-05'' \<and>
      (\<forall>j<length goal_rows_distinct_ex. j \<noteq> k \<longrightarrow> rows' ! j = goal_rows_distinct_ex ! j) \<and>
      month_year_cell (rows' ! k) = month_year_cell (goal_rows_distinct_ex ! k) \<and>
      take 3 (tl (rows' ! k)) = [Num (of_int 1800), Num (of_int 90), Str ''2024-05-07T08:30:00''] \<and>
      drop 4 (rows' ! k) = drop 4 (goal_rows_distinct_ex ! k)) \<and>
   (\<exists>rows'.
      sheet_of (snd (upsert_goal GOALS_SHEET ''2024-06'' 1800 90 ''2024-05-07T08:30:00''
                  (world_ex [] goal_rows_distinct_ex []))) GOALS_SHEET = Some (goals_header # rows') \<and>
      length rows' = Suc (length goal_rows_distinct_ex) \<and>
      take (length goal_rows_distinct_ex) rows' = goal_rows_distinct_ex) \<and>
   sheet_of (snd (upsert_goal GOALS_SHEET ''2024-05'' 1800 90 ''2024-05-07T08:30:00''
                  (world_ex [] goal_rows_distinct_ex []))) MEALS_SHEET = Some [meals_header]"
proof -
  have d: "distinct (map month_year_cell goal_rows_distinct_ex)"
    by (simp add: goal_rows_distinct_ex_def month_year_cell_def)
  have present: "Str ''2024-05'' \<in> month_year_cell ` set goal_rows_distinct_ex"
    by (simp add: goal_rows_distinct_ex_def month_year_cell_def)
  have absent: "Str ''2024-06'' \<notin> month_year_cell ` set goal_rows_distinct_ex"
    by (simp add: goal_rows_distinct_ex_def month_year_cell_def)
  have ne: "MEALS_SHEET \<noteq> GOALS_SHEET"
    by (simp add: MEALS_SHEET_def GOALS_SHEET_def)
  have m: "sheet_of (world_ex [] goal_rows_distinct_ex []) MEALS_SHEET = Some [meals_header]"
    by (simp add: sheet_of_def world_ex_def)
  note th = upsert_goal_frame [OF reliable_world_ex [of "[]" goal_rows_distinct_ex]
      goals_of_world_ex [of "[]" goal_rows_distinct_ex "[]"] d,
      where ts = "''2024-05-07T08:30:00''" and cal = 1800 and prot = 90]
  from th [where label = "''2024-05''"] th [where label = "''2024-06''"] d present absent ne m
  show ?thesis by metis
qed

subsection \<open>Table initialisation\<close>

lemma worksheet_sheets: "sheets (snd (worksheet name w)) = sheets w \<and> ui (snd (worksheet name w)) = ui w"
  by (auto simp: worksheet_def remote_call_def sheet_of_def split: list.splits bool.splits option.splits)

lemma worksheet_present:
  "sheet_of w name = Some sh \<Longrightarrow> fst (worksheet name w) \<noteq> Inl WorksheetNotFound"
  by (auto simp: worksheet_def remote_call_def sheet_of_def split: list.splits bool.splits option.splits)

lemma ensure_worksheet_present:
  assumes "sheet_of w name = Some sh"
  shows "sheets (snd (ensure_worksheet name header w)) = sheets w \<and>
         ui (snd (ensure_worksheet name header w)) = ui w"
proof (cases "worksheet name w")
  case (Pair res w1)
  with worksheet_sheets [of name w] have w1: "sheets w1 = sheets w" "ui w1 = ui w" by simp_all
  from Pair worksheet_present [OF assms] have nf: "res \<noteq> Inl WorksheetNotFound" by simp
  show ?thesis
  proof (cases res)
    case (Inl e)
    with nf Pair w1 show ?thesis by (cases e) (simp_all add: ensure_worksheet_def)
  next
    case (Inr ws)
    with Pair w1 worksheet_sheets [of name w1] show ?thesis by (simp add: ensure_worksheet_def)
  qed
qed

lemma worksheet_reliable:
  "reliable w \<Longrightarrow> worksheet name w =
     (case sheet_of w name of None \<Rightarrow> (Inl WorksheetNotFound, spend w) | Some _ \<Rightarrow> (Inr name, spend w))"
  by (simp add: worksheet_def remote_call_reliable)

lemma add_worksheet_reliable:
  "reliable w \<Longrightarrow> sheet_of w name = None \<Longrightarrow>
   add_worksheet name w = (Inr name, (spend w)\<lparr>sheets := sheets w @ [(name, [])]\<rparr>)"
  by (simp add: add_worksheet_def remote_call_reliable)

lemma put_sheet_new:
  "name \<notin> fst ` set l \<Longrightarrow> put_sheet name sh (l @ [(name, old)]) = l @ [(name, sh)]"
  by (induction l) auto

lemma map_of_new: "map_of l name = None \<Longrightarrow> map_of (l @ [(name, sh)]) name = Some sh"
  by (simp add: map_add_def)

lemma ensure_worksheet_creates:
  assumes rel: "reliable w" and none: "sheet_of w name = None"
  shows "ensure_worksheet name header w =
     (Inr name, (spend (spend (spend (spend w))))\<lparr>sheets := sheets w @ [(name, [header])],
         ui := ui w @ [Info (''Worksheet '' @ name @ '' created with headers.'')]\<rparr>)"
proof -
  let ?w1 = "spend w"
  let ?w2 = "(spend ?w1)\<lparr>sheets := sheets w @ [(name, [])]\<rparr>"
  let ?w3 = "(spend ?w2)\<lparr>sheets := sheets w @ [(name, [header])]\<rparr>"
  let ?w4 = "st_info (''Worksheet '' @ name @ '' created with headers.'') ?w3"
  from none have absent: "name \<notin> fst ` set (sheets w)"
    by (simp add: sheet_of_def map_of_eq_None_iff)
  have s1: "worksheet name w = (Inl WorksheetNotFound, ?w1)"
    using rel none by (simp add: worksheet_reliable)
  have s2: "add_worksheet name ?w1 = (Inr name, ?w2)"
    using rel none by (simp add: add_worksheet_reliable reliable_spend)
  have sh2: "sheet_of ?w2 name = Some []"
    using none by (simp add: sheet_of_def map_add_def)
  have rel2: "reliable ?w2" using rel by (simp add: reliable_spend)
  have s3: "append_row name header ?w2 = (Inr (), ?w3)"
    using absent by (simp add: append_row_reliable [OF rel2 sh2] put_sheet_new)
  have rel4: "reliable ?w4" using rel by (simp add: st_info_def reliable_spend)
  have sh4: "sheet_of ?w4 name = Some [header]"
    using none by (simp add: sheet_of_def st_info_def map_add_def)
  have s4: "worksheet name ?w4 = (Inr name, spend ?w4)"
    using rel4 sh4 by (simp add: worksheet_reliable)
  have "spend ?w4 = (spend (spend (spend (spend w))))\<lparr>sheets := sheets w @ [(name, [header])],
         ui := ui w @ [Info (''Worksheet '' @ name @ '' created with headers.'')]\<rparr>"
    by (simp add: spend_def st_info_def)
  with s1 s2 s3 s4 show ?thesis by (simp add: ensure_worksheet_def)
qed

lemma ensure_worksheet_finds:
  assumes rel: "reliable w" and some: "sheet_of w name = Some sh"
  shows "ensure_worksheet name header w = (Inr name, spend (spend w))"
  using assms by (simp add: ensure_worksheet_def worksheet_reliable reliable_spend)

text \<open>
  C7. Whatever the failure schedule, \<open>ensure_worksheet\<close> on a worksheet that
  exists writes nothing: the list of worksheets and their contents is the same afterwards,
  so no header is rewritten or added and no second worksheet is made. On a worksheet that
  does not exist yet and with the store answering, two calls in a row both return the
  handle and leave one worksheet of that name whose only row is the header.
\<close>

theorem ensure_worksheet_idempotent:
  "(sheet_of w name \<noteq> None \<longrightarrow>
      sheets (snd (ensure_worksheet name header w)) = sheets w) \<and>
   (reliable w \<and> sheet_of w name = None \<longrightarrow>
      fst (ensure_worksheet name header w) = Inr name \<and>
      fst (ensure_worksheet name header (snd (ensure_worksheet name header w))) = Inr name \<and>
      sheet_of (snd (ensure_worksheet name header (snd (ensure_worksheet name header w)))) name
        = Some [header] \<and>
      length (filter (\<lambda>p. fst p = name)
        (sheets (snd (ensure_worksheet name header (snd (ensure_worksheet name header w)))))) = 1)"
proof (intro conjI impI)
  assume "sheet_of w name \<noteq> None"
  then obtain sh where "sheet_of w name = Some sh" by auto
  then show "sheets (snd (ensure_worksheet name header w)) = sheets w"
    by (simp add: ensure_worksheet_present)
next
  assume a: "reliable w \<and> sheet_of w name = None"
  let ?w1 = "(spend (spend (spend (spend w))))\<lparr>sheets := sheets w @ [(name, [header])],
         ui := ui w @ [Info (''Worksheet '' @ name @ '' created with headers.'')]\<rparr>"
  have first: "ensure_worksheet name header w = (Inr name, ?w1)"
    using a by (simp add: ensure_worksheet_creates)
  have rel1: "reliable ?w1" using a by (simp add: reliable_spend)
  have sh1: "sheet_of ?w1 name = Some [header]"
    using a by (simp add: sheet_of_def map_add_def)
  have second: "ensure_worksheet name header ?w1 = (Inr name, spend (spend ?w1))"
    using rel1 sh1 by (rule ensure_worksheet_finds)
  from a have absent: "name \<notin> fst ` set (sheets w)"
    by (simp add: sheet_of_def map_of_eq_None_iff)
  then have none: "filter (\<lambda>p. fst p = name) (sheets w) = []"
    by (auto simp: filter_empty_conv)
  show "fst (ensure_worksheet name header w) = Inr name" by (simp add: first)
  show "fst (ensure_worksheet name header (snd (ensure_worksheet name header w))) = Inr name"
    by (simp only: first second fst_conv snd_conv)
  show "sheet_of (snd (ensure_worksheet name header (snd (ensure_worksheet name header w)))) name
        = Some [header]"
    by (simp only: first second snd_conv sheet_of_spend sh1)
  show "length (filter (\<lambda>p. fst p = name)
        (sheets (snd (ensure_worksheet name header (snd (ensure_worksheet name header w)))))) = 1"
    using none by (simp only: first second snd_conv spend_fields) simp
qed

theorem ensure_worksheet_idempotent_witness:
  "sheets (snd (ensure_worksheet GOALS_SHEET goals_header (world_ex [] goal_rows_ex [False, True])))
     = sheets (world_ex [] goal_rows_ex [False, True]) \<and>
   fst (ensure_worksheet MEALS_SHEET meals_header \<lparr>sheets = [], faults = [], ui = []\<rparr>)
     = Inr MEALS_SHEET \<and>
   sheet_of (snd (ensure_worksheet MEALS_SHEET meals_header
       (snd (ensure_worksheet MEALS_SHEET meals_header \<lparr>sheets = [], faults = [], ui = []\<rparr>))))
     MEALS_SHEET = Some [meals_header] \<and>
   length (filter (\<lambda>p. fst p = MEALS_SHEET)
     (sheets (snd (ensure_worksheet MEALS_SHEET meals_header
       (snd (ensure_worksheet MEALS_SHEET meals_header \<lparr>sheets = [], faults = [], ui = []\<rparr>)))))) = 1"
proof -
  have a: "sheet_of (world_ex [] goal_rows_ex [False, True]) GOALS_SHEET \<noteq> None"
    by (simp add: goals_of_world_ex)
  have b: "reliable \<lparr>sheets = [], faults = [], ui = []\<rparr> \<and>
           sheet_of \<lparr>sheets = [], faults = [], ui = []\<rparr> MEALS_SHEET = None"
    by (simp add: reliable_def sheet_of_def)
  from a b
    ensure_worksheet_idempotent [of "world_ex [] goal_rows_ex [False, True]" GOALS_SHEET goals_header]
    ensure_worksheet_idempotent [of "\<lparr>sheets = [], faults = [], ui = []\<rparr>" MEALS_SHEET meals_header]
  show ?thesis by blast
qed

subsection \<open>The handlers\<close>

lemma add_food_handler_returns: "fst (add_food_handler inp w) = Inr ()"
  by (simp add: add_food_handler_def split: prod.splits sum.splits)

lemma save_note_handler_returns: "fst (save_note_handler inp w) = Inr ()"
  by (simp add: save_note_handler_def split: prod.splits sum.splits)

lemma append_row_cases:
  "(\<exists>sh. sheet_of w ws = Some sh \<and> append_row ws r w =
       (Inr (), (snd (remote_call w))\<lparr>sheets := put_sheet ws (sh @ [r]) (sheets w)\<rparr>)) \<or>
   (append_row ws r w = (Inl APIError, snd (remote_call w)))"
  by (auto simp: append_row_def remote_call_def sheet_of_def split: list.splits bool.splits option.splits)

lemma remote_call_fields [simp]:
  "sheets (snd (remote_call w)) = sheets w" "ui (snd (remote_call w)) = ui w"
  by (simp_all add: remote_call_def split: list.splits)

lemma append_row_ok:
  assumes "fst (append_row ws r w) = Inr ()"
  shows "\<exists>sh. sheet_of w ws = Some sh \<and> append_row ws r w =
       (Inr (), (snd (remote_call w))\<lparr>sheets := put_sheet ws (sh @ [r]) (sheets w)\<rparr>)"
  using assms append_row_cases [of w ws r] by auto

lemma is_tenth_of_int: "is_tenth (of_int k / 10)"
  by (simp add: is_tenth_def)

lemma py_round1_tenth: "is_tenth (py_round1 x)"
  unfolding py_round1_def Let_def by (simp only: is_tenth_of_int if_split) simp

lemma py_round1_near: "\<bar>py_round1 x - x\<bar> \<le> 1 / 20"
proof -
  define y where "y = x * 10"
  define d where "d = y - of_int \<lfloor>y\<rfloor>"
  have d0: "0 \<le> d" and d1: "d < 1" unfolding d_def by linarith+
  have x: "x = (of_int \<lfloor>y\<rfloor> + d) / 10" unfolding d_def y_def by simp
  have "py_round1 x = (if d < 1 / 2 then of_int \<lfloor>y\<rfloor> / 10
      else if 1 / 2 < d then of_int (\<lfloor>y\<rfloor> + 1) / 10
      else if even \<lfloor>y\<rfloor> then of_int \<lfloor>y\<rfloor> / 10 else of_int (\<lfloor>y\<rfloor> + 1) / 10)"
    by (simp add: py_round1_def Let_def y_def d_def)
  moreover have "\<bar>of_int \<lfloor>y\<rfloor> / 10 - x\<bar> \<le> 1 / 20" if "d \<le> 1 / 2"
    using that d0 by (simp add: x field_simps abs_if)
  moreover have "\<bar>of_int (\<lfloor>y\<rfloor> + 1) / 10 - x\<bar> \<le> 1 / 20" if "1 / 2 \<le> d"
    using that d1 by (simp add: x field_simps abs_if)
  ultimately show ?thesis by (auto simp: not_less)
qed

lemma map_of_put_other: "n \<noteq> name \<Longrightarrow> map_of (put_sheet name sh l) n = map_of l n"
  by (induction l) auto

lemma put_sheet_commute:
  "a \<noteq> b \<Longrightarrow> put_sheet a x (put_sheet b y l) = put_sheet b y (put_sheet a x l)"
  by (induction l) auto

lemma add_food_handler_rejects:
  "add_btn inp \<Longrightarrow> food_item inp = [] \<Longrightarrow>
   add_food_handler inp w = (Inr (), w\<lparr>ui := ui w @ [Warning ''Please enter a food name.'']\<rparr>)"
  by (simp add: add_food_handler_def st_warning_def)

lemma save_note_handler_rejects:
  "save_note_btn inp \<Longrightarrow> strip (daily_note_text inp) = [] \<Longrightarrow>
   save_note_handler inp w = (Inr (), w\<lparr>ui := ui w @ [Warning ''Note is empty.'']\<rparr>)"
  by (simp add: save_note_handler_def st_warning_def)

lemma add_food_handler_saves:
  assumes "add_btn inp" "food_item inp \<noteq> []"
    and "fst (append_row MEALS_SHEET (meal_row inp) w) = Inr ()"
  shows "\<exists>sh. sheet_of w MEALS_SHEET = Some sh \<and>
           sheets (snd (add_food_handler inp w)) = put_sheet MEALS_SHEET (sh @ [meal_row inp]) (sheets w)"
proof -
  from append_row_ok [OF assms(3)] obtain sh where
    sh: "sheet_of w MEALS_SHEET = Some sh" and
    ap: "append_row MEALS_SHEET (meal_row inp) w =
       (Inr (), (snd (remote_call w))\<lparr>sheets := put_sheet MEALS_SHEET (sh @ [meal_row inp]) (sheets w)\<rparr>)"
    by blast
  from assms(1,2) ap have
    "sheets (snd (add_food_handler inp w)) = put_sheet MEALS_SHEET (sh @ [meal_row inp]) (sheets w)"
    by (simp add: add_food_handler_def append_meal_row_def st_success_def)
  with sh show ?thesis by blast
qed

lemma save_note_handler_saves:
  assumes "save_note_btn inp" "strip (daily_note_text inp) \<noteq> []"
    and "fst (append_row NOTES_SHEET
            [Str (strftime_ymd (note_date inp)), Str (daily_note_text inp), Str (now inp)] w) = Inr ()"
  shows "\<exists>sh. sheet_of w NOTES_SHEET = Some sh \<and>
           sheets (snd (save_note_handler inp w)) =
             put_sheet NOTES_SHEET
               (sh @ [[Str (strftime_ymd (note_date inp)), Str (daily_note_text inp), Str (now inp)]])
               (sheets w)"
proof -
  let ?r = "[Str (strftime_ymd (note_date inp)), Str (daily_note_text inp), Str (now inp)]"
  from append_row_ok [OF assms(3)] obtain sh where
    sh: "sheet_of w NOTES_SHEET = Some sh" and
    ap: "append_row NOTES_SHEET ?r w =
       (Inr (), (snd (remote_call w))\<lparr>sheets := put_sheet NOTES_SHEET (sh @ [?r]) (sheets w)\<rparr>)"
    by blast
  from assms(1,2) ap have
    "sheets (snd (save_note_handler inp w)) = put_sheet NOTES_SHEET (sh @ [?r]) (sheets w)"
    by (simp add: save_note_handler_def st_success_def)
  with sh show ?thesis by blast
qed

lemma sheet_of_put_same:
  "sheet_of w ws = Some sh \<Longrightarrow> map_of (put_sheet ws sh' (sheets w)) ws = Some sh'"
  by (simp add: sheet_of_def map_of_put_sheet)

lemma header_lookup:
  assumes i: "i < length hdr" and key: "hdr ! i = Str key" "Str key \<notin> set (drop (Suc i) hdr)"
    and ne: "key \<noteq> []" and n: "length hdr \<le> n" "length r \<le> n"
  shows "dict_get (zip (pad_row n hdr) (pad_row n r)) key = Some (pad_row n r ! i)"
proof (rule dict_get_zip_nth)
  show "i < length (pad_row n hdr)" using i n by (simp add: length_pad_row)
  show "length (pad_row n r) = length (pad_row n hdr)" using n by (simp add: length_pad_row)
  show "pad_row n hdr ! i = Str key" using i key by (simp add: pad_row_def nth_append)
  show "Str key \<notin> set (drop (Suc i) (pad_row n hdr))"
    using i key ne by (auto simp: pad_row_def)
qed

lemma last_records_of:
  "last (records_of (hdr # rows @ [r])) =
     zip (pad_row (width (hdr # rows @ [r])) hdr) (pad_row (width (hdr # rows @ [r])) r)"
  by (simp add: records_of_Cons last_map)

lemma meal_record_field:
  assumes "i < 11" "meals_header ! i = Str key" "Str key \<notin> set (drop (Suc i) meals_header)" "key \<noteq> []"
  shows "dict_get (last (records_of (meals_header # rows @ [meal_row inp]))) key = Some (meal_row inp ! i)"
proof -
  let ?n = "width (meals_header # rows @ [meal_row inp])"
  have h: "length meals_header \<le> ?n" by (rule width_ge) simp
  have r: "length (meal_row inp) \<le> ?n" by (rule width_ge) simp
  have len: "length meals_header = 11" "length (meal_row inp) = 11"
    by (simp_all add: meals_header_def meal_row_def)
  have "dict_get (zip (pad_row ?n meals_header) (pad_row ?n (meal_row inp))) key
          = Some (pad_row ?n (meal_row inp) ! i)"
    using assms h r len by (intro header_lookup) simp_all
  moreover have "pad_row ?n (meal_row inp) ! i = meal_row inp ! i"
    using assms(1) len by (simp add: pad_row_def nth_append)
  ultimately show ?thesis by (simp only: last_records_of)
qed

lemma meal_record_values:
  "dict_get (last (records_of (meals_header # rows @ [meal_row inp]))) ''grams''
     = Some (Num (py_round1 (qty inp)))"
  "dict_get (last (records_of (meals_header # rows @ [meal_row inp]))) ''protein_g''
     = Some (Num (py_round1 (protein inp)))"
  "dict_get (last (records_of (meals_header # rows @ [meal_row inp]))) ''carbs_g''
     = Some (Num (py_round1 (carbs inp)))"
  "dict_get (last (records_of (meals_header # rows @ [meal_row inp]))) ''fat_g''
     = Some (Num (py_round1 (fat inp)))"
  "dict_get (last (records_of (meals_header # rows @ [meal_row inp]))) ''calories''
     = Some (Num (py_round1 (calories inp)))"
  "dict_get (last (records_of (meals_header # rows @ [meal_row inp]))) ''daily_calorie_goal''
     = Some (Num (of_int (calorie_goal_input inp)))"
  "dict_get (last (records_of (meals_header # rows @ [meal_row inp]))) ''daily_protein_goal''
     = Some (Num (of_int (protein_goal_input inp)))"
proof -
  show "dict_get (last (records_of (meals_header # rows @ [meal_row inp]))) ''grams''
     = Some (Num (py_round1 (qty inp)))"
    using meal_record_field [of 3 "''grams''" rows inp] by (simp add: meals_header_def meal_row_def)
  show "dict_get (last (records_of (meals_header # rows @ [meal_row inp]))) ''protein_g''
     = Some (Num (py_round1 (protein inp)))"
    using meal_record_field [of 4 "''protein_g''" rows inp] by (simp add: meals_header_def meal_row_def)
  show "dict_get (last (records_of (meals_header # rows @ [meal_row inp]))) ''carbs_g''
     = Some (Num (py_round1 (carbs inp)))"
    using meal_record_field [of 5 "''carbs_g''" rows inp] by (simp add: meals_header_def meal_row_def)
  show "dict_get (last (records_of (meals_header # rows @ [meal_row inp]))) ''fat_g''
     = Some (Num (py_round1 (fat inp)))"
    using meal_record_field [of 6 "''fat_g''" rows inp] by (simp add: meals_header_def meal_row_def)
  show "dict_get (last (records_of (meals_header # rows @ [meal_row inp]))) ''calories''
     = Some (Num (py_round1 (calories inp)))"
    using meal_record_field [of 7 "''calories''" rows inp] by (simp add: meals_header_def meal_row_def)
  show "dict_get (last (records_of (meals_header # rows @ [meal_row inp]))) ''daily_calorie_goal''
     = Some (Num (of_int (calorie_goal_input inp)))"
    using meal_record_field [of 8 "''daily_calorie_goal''" rows inp]
    by (simp add: meals_header_def meal_row_def)
  show "dict_get (last (records_of (meals_header # rows @ [meal_row inp]))) ''daily_protein_goal''
     = Some (Num (of_int (protein_goal_input inp)))"
    using meal_record_field [of 9 "''daily_protein_goal''" rows inp]
    by (simp add: meals_header_def meal_row_def)
qed

lemma add_food_handler_written:
  assumes "add_btn inp" "food_item inp \<noteq> []" "sheet_of w MEALS_SHEET = Some sh"
    and "fst (append_row MEALS_SHEET (meal_row inp) w) = Inr ()"
  shows "sheet_of (snd (add_food_handler inp w)) MEALS_SHEET = Some (sh @ [meal_row inp])"
  using add_food_handler_saves [OF assms(1,2,4)] assms(3)
  by (auto simp: sheet_of_def map_of_put_sheet)

lemma set_goal_handler_raises:
  "set_goal_handler (inp\<lparr>set_goal_btn := True\<rparr>) (w\<lparr>faults := True # fs\<rparr>)
     = (Inl APIError, w\<lparr>faults := fs\<rparr>)"
  by (simp add: set_goal_handler_def upsert_goal_def then_io_def get_all_records_def remote_call_def)

text \<open>
  C2. The handlers of ``Add Food'' and ``Save Daily Note'' never let an exception out.
  The handler of ``Set / Update Monthly Goal'' calls \<open>upsert_goal\<close> outside any
  \<open>try\<close>: when the first remote call of the upsert raises, the exception leaves the
  handler, nothing is shown to the user and the run of the script ends there. In the run
  below the store fails at the second cell update: the calorie goal of the row is already
  overwritten, the protein goal is not, and no banner is shown.
\<close>

theorem set_goal_failure_escapes:
  "fst (add_food_handler inp w) = Inr () \<and>
   fst (save_note_handler inp w) = Inr () \<and>
   fst (set_goal_handler (inp\<lparr>set_goal_btn := True\<rparr>) (w\<lparr>faults := True # fs\<rparr>)) = Inl APIError \<and>
   ui (snd (set_goal_handler (inp\<lparr>set_goal_btn := True\<rparr>) (w\<lparr>faults := True # fs\<rparr>))) = ui w \<and>
   app (inputs_ex\<lparr>add_btn := False, set_goal_btn := True, save_note_btn := True\<rparr>)
       (world_ex [] goal_rows_distinct_ex [False, False, False, False, False, False, False, False, True])
     = (Inl APIError,
        \<lparr>sheets = [(MEALS_SHEET, [meals_header]),
                   (GOALS_SHEET, [goals_header,
                      [Str ''2024-04'', Num 1600, Num 70, Str ''2024-04-01T09:00:00''],
                      [Str ''2024-05'', Num 2000, Num 80, Str ''2024-05-01T09:00:00'', Str ''kept'']]),
                   (NOTES_SHEET, [notes_header])],
         faults = [], ui = []\<rparr>)"
proof -
  have "app (inputs_ex\<lparr>add_btn := False, set_goal_btn := True, save_note_btn := True\<rparr>)
       (world_ex [] goal_rows_distinct_ex [False, False, False, False, False, False, False, False, True])
     = (Inl APIError,
        \<lparr>sheets = [(MEALS_SHEET, [meals_header]),
                   (GOALS_SHEET, [goals_header,
                      [Str ''2024-04'', Num 1600, Num 70, Str ''2024-04-01T09:00:00''],
                      [Str ''2024-05'', Num 2000, Num 80, Str ''2024-05-01T09:00:00'', Str ''kept'']]),
                   (NOTES_SHEET, [notes_header])],
         faults = [], ui = []\<rparr>)"
    by code_simp
  then show ?thesis
    by (simp only: add_food_handler_returns save_note_handler_returns set_goal_handler_raises) simp
qed

text \<open>
  C6 as stated fails: a meal with a food name passes the validation, but when the append
  raises, the handler reports ``Save failed'' and the meal table keeps its rows.
\<close>

theorem validated_meal_not_appended:
  "add_btn inputs_ex \<and> food_item inputs_ex \<noteq> [] \<and>
   sheet_of (world_ex [] [] [True]) MEALS_SHEET = Some [meals_header] \<and>
   sheet_of (snd (add_food_handler inputs_ex (world_ex [] [] [True]))) MEALS_SHEET = Some [meals_header] \<and>
   ui (snd (add_food_handler inputs_ex (world_ex [] [] [True]))) = [Error ''Save failed: APIError'']"
  by code_simp

text \<open>
  C6, amended. A meal with an empty food name and a note that is empty after stripping
  white space are rejected with a warning, without any remote call and with the
  spreadsheet unchanged. A submission that passes the validation and whose append the
  store accepts adds exactly one row, the submitted one, at the end of its table.
\<close>

theorem submission_validation:
  "(add_btn inp \<and> food_item inp = [] \<longrightarrow>
      add_food_handler inp w = (Inr (), w\<lparr>ui := ui w @ [Warning ''Please enter a food name.'']\<rparr>)) \<and>
   (save_note_btn inp \<and> strip (daily_note_text inp) = [] \<longrightarrow>
      save_note_handler inp w = (Inr (), w\<lparr>ui := ui w @ [Warning ''Note is empty.'']\<rparr>)) \<and>
   (add_btn inp \<and> food_item inp \<noteq> [] \<and>
    fst (append_row MEALS_SHEET (meal_row inp) w) = Inr () \<longrightarrow>
      (\<exists>sh. sheet_of w MEALS_SHEET = Some sh \<and>
         sheet_of (snd (add_food_handler inp w)) MEALS_SHEET = Some (sh @ [meal_row inp]))) \<and>
   (save_note_btn inp \<and> strip (daily_note_text inp) \<noteq> [] \<and>
    fst (append_row NOTES_SHEET
           [Str (strftime_ymd (note_date inp)), Str (daily_note_text inp), Str (now inp)] w) = Inr () \<longrightarrow>
      (\<exists>sh. sheet_of w NOTES_SHEET = Some sh \<and>
         sheet_of (snd (save_note_handler inp w)) NOTES_SHEET =
           Some (sh @ [[Str (strftime_ymd (note_date inp)), Str (daily_note_text inp), Str (now inp)]])))"
proof (intro conjI impI)
  assume "add_btn inp \<and> food_item inp = []"
  then show "add_food_handler inp w = (Inr (), w\<lparr>ui := ui w @ [Warning ''Please enter a food name.'']\<rparr>)"
    by (simp add: add_food_handler_rejects)
next
  assume "save_note_btn inp \<and> strip (daily_note_text inp) = []"
  then show "save_note_handler inp w = (Inr (), w\<lparr>ui := ui w @ [Warning ''Note is empty.'']\<rparr>)"
    by (simp add: save_note_handler_rejects)
next
  assume a: "add_btn inp \<and> food_item inp \<noteq> [] \<and>
    fst (append_row MEALS_SHEET (meal_row inp) w) = Inr ()"
  then obtain sh where sh: "sheet_of w MEALS_SHEET = Some sh"
    using append_row_ok by blast
  with a have "sheet_of (snd (add_food_handler inp w)) MEALS_SHEET = Some (sh @ [meal_row inp])"
    by (simp add: add_food_handler_written)
  with sh show "\<exists>sh. sheet_of w MEALS_SHEET = Some sh \<and>
         sheet_of (snd (add_food_handler inp w)) MEALS_SHEET = Some (sh @ [meal_row inp])"
    by blast
next
  let ?r = "[Str (strftime_ymd (note_date inp)), Str (daily_note_text inp), Str (now inp)]"
  assume a: "save_note_btn inp \<and> strip (daily_note_text inp) \<noteq> [] \<and>
    fst (append_row NOTES_SHEET ?r w) = Inr ()"
  then have "\<exists>sh. sheet_of w NOTES_SHEET = Some sh \<and>
           sheets (snd (save_note_handler inp w)) = put_sheet NOTES_SHEET (sh @ [?r]) (sheets w)"
    by (intro save_note_handler_saves) simp_all
  then show "\<exists>sh. sheet_of w NOTES_SHEET = Some sh \<and>
         sheet_of (snd (save_note_handler inp w)) NOTES_SHEET = Some (sh @ [?r])"
    by (auto simp: sheet_of_def map_of_put_sheet)
qed

theorem submission_validation_witness:
  "add_food_handler (inputs_ex\<lparr>food_item := []\<rparr>) (world_ex [] [] [])
     = (Inr (), (world_ex [] [] [])\<lparr>ui := ui (world_ex [] [] []) @ [Warning ''Please enter a food name.'']\<rparr>) \<and>
   save_note_handler
       (inputs_ex\<lparr>save_note_btn := True, daily_note_text := [CHR 0x20, CHR 0x09, CHR 0xA0, CHR 0x85]\<rparr>)
       (world_ex [] [] [])
     = (Inr (), (world_ex [] [] [])\<lparr>ui := ui (world_ex [] [] []) @ [Warning ''Note is empty.'']\<rparr>) \<and>
   sheet_of (snd (add_food_handler inputs_ex (world_ex [] [] []))) MEALS_SHEET
     = Some [meals_header, meal_row inputs_ex] \<and>
   sheet_of (snd (save_note_handler (inputs_ex\<lparr>save_note_btn := True\<rparr>) (world_ex [] [] []))) NOTES_SHEET
     = Some [notes_header, [Str ''2024-05-07'', Str ''Felt fine.'', Str ''2024-05-07T08:30:00'']]"
proof -
  let ?note = "inputs_ex\<lparr>save_note_btn := True\<rparr>"
  let ?blank = "inputs_ex\<lparr>save_note_btn := True,
                   daily_note_text := [CHR 0x20, CHR 0x09, CHR 0xA0, CHR 0x85]\<rparr>"
  let ?r = "[Str (strftime_ymd (note_date ?note)), Str (daily_note_text ?note), Str (now ?note)]"
  have h1: "add_btn (inputs_ex\<lparr>food_item := []\<rparr>) \<and> food_item (inputs_ex\<lparr>food_item := []\<rparr>) = []"
    by (simp add: inputs_ex_def)
  have h2: "save_note_btn ?blank \<and> strip (daily_note_text ?blank) = []"
    by (simp add: strip_def is_space_def)
  have h3: "add_btn inputs_ex \<and> food_item inputs_ex \<noteq> [] \<and>
      fst (append_row MEALS_SHEET (meal_row inputs_ex) (world_ex [] [] [])) = Inr ()"
    by (simp add: inputs_ex_def append_row_def remote_call_def world_ex_def sheet_of_def)
  have h4: "save_note_btn ?note \<and> strip (daily_note_text ?note) \<noteq> [] \<and>
      fst (append_row NOTES_SHEET ?r (world_ex [] [] [])) = Inr ()"
    by (simp add: inputs_ex_def strip_def is_space_def append_row_def remote_call_def world_ex_def
        sheet_of_def MEALS_SHEET_def GOALS_SHEET_def NOTES_SHEET_def)
  have m: "sheet_of (world_ex [] [] []) MEALS_SHEET = Some [meals_header]"
    by (simp add: world_ex_def sheet_of_def)
  have n: "sheet_of (world_ex [] [] []) NOTES_SHEET = Some [notes_header]"
    by (simp add: world_ex_def sheet_of_def MEALS_SHEET_def GOALS_SHEET_def NOTES_SHEET_def)
  have r: "?r = [Str ''2024-05-07'', Str ''Felt fine.'', Str ''2024-05-07T08:30:00'']"
    by (simp add: inputs_ex_def strftime_ymd_def pad4_def pad2_def digit_def)
  from submission_validation [of "inputs_ex\<lparr>food_item := []\<rparr>" "world_ex [] [] []"] h1
  have c1: "add_food_handler (inputs_ex\<lparr>food_item := []\<rparr>) (world_ex [] [] [])
     = (Inr (), (world_ex [] [] [])\<lparr>ui := ui (world_ex [] [] []) @ [Warning ''Please enter a food name.'']\<rparr>)"
    by blast
  from submission_validation [of ?blank "world_ex [] [] []"] h2
  have c2: "save_note_handler ?blank (world_ex [] [] [])
     = (Inr (), (world_ex [] [] [])\<lparr>ui := ui (world_ex [] [] []) @ [Warning ''Note is empty.'']\<rparr>)"
    by blast
  from submission_validation [of inputs_ex "world_ex [] [] []"] h3
  have "\<exists>sh. sheet_of (world_ex [] [] []) MEALS_SHEET = Some sh \<and>
         sheet_of (snd (add_food_handler inputs_ex (world_ex [] [] []))) MEALS_SHEET
           = Some (sh @ [meal_row inputs_ex])"
    by blast
  with m have c3: "sheet_of (snd (add_food_handler inputs_ex (world_ex [] [] []))) MEALS_SHEET
     = Some [meals_header, meal_row inputs_ex]"
    by auto
  from submission_validation [of ?note "world_ex [] [] []"] h4
  have "\<exists>sh. sheet_of (world_ex [] [] []) NOTES_SHEET = Some sh \<and>
         sheet_of (snd (save_note_handler ?note (world_ex [] [] []))) NOTES_SHEET = Some (sh @ [?r])"
    by blast
  with n have "sheet_of (snd (save_note_handler ?note (world_ex [] [] []))) NOTES_SHEET
     = Some [notes_header, ?r]"
    by auto
  then have c4: "sheet_of (snd (save_note_handler ?note (world_ex [] [] []))) NOTES_SHEET
     = Some [notes_header, [Str ''2024-05-07'', Str ''Felt fine.'', Str ''2024-05-07T08:30:00'']]"
    by (simp only: r)
  from c1 c2 c3 c4 show ?thesis by blast
qed

text \<open>
  C8. When a meal submission is written to a meal table with the declared header, the row
  read back has under \<open>grams\<close>, \<open>protein_g\<close>, \<open>carbs_g\<close>,
  \<open>fat_g\<close> and \<open>calories\<close> the widget values after \<open>round(x, 1)\<close>; and
  \<open>round(x, 1)\<close> is a whole number of tenths at most one twentieth away from
  \<open>x\<close>.
\<close>

theorem persisted_values_rounded:
  assumes "add_btn inp" and "food_item inp \<noteq> []"
    and "sheet_of w MEALS_SHEET = Some (meals_header # rows)"
    and "fst (append_row MEALS_SHEET (meal_row inp) w) = Inr ()"
  shows "(\<exists>sh'. sheet_of (snd (add_food_handler inp w)) MEALS_SHEET = Some sh' \<and>
            length sh' = Suc (length (meals_header # rows)) \<and>
            dict_get (last (records_of sh')) ''grams'' = Some (Num (py_round1 (qty inp))) \<and>
            dict_get (last (records_of sh')) ''protein_g'' = Some (Num (py_round1 (protein inp))) \<and>
            dict_get (last (records_of sh')) ''carbs_g'' = Some (Num (py_round1 (carbs inp))) \<and>
            dict_get (last (records_of sh')) ''fat_g'' = Some (Num (py_round1 (fat inp))) \<and>
            dict_get (last (records_of sh')) ''calories'' = Some (Num (py_round1 (calories inp)))) \<and>
         (\<forall>x. is_tenth (py_round1 x) \<and> \<bar>py_round1 x - x\<bar> \<le> 1 / 20)"
proof -
  have "sheet_of (snd (add_food_handler inp w)) MEALS_SHEET
          = Some ((meals_header # rows) @ [meal_row inp])"
    using assms by (rule add_food_handler_written)
  then have "sheet_of (snd (add_food_handler inp w)) MEALS_SHEET
          = Some (meals_header # rows @ [meal_row inp])"
    by simp
  moreover have "length (meals_header # rows @ [meal_row inp]) = Suc (length (meals_header # rows))"
    by simp
  ultimately have "\<exists>sh'. sheet_of (snd (add_food_handler inp w)) MEALS_SHEET = Some sh' \<and>
            length sh' = Suc (length (meals_header # rows)) \<and>
            dict_get (last (records_of sh')) ''grams'' = Some (Num (py_round1 (qty inp))) \<and>
            dict_get (last (records_of sh')) ''protein_g'' = Some (Num (py_round1 (protein inp))) \<and>
            dict_get (last (records_of sh')) ''carbs_g'' = Some (Num (py_round1 (carbs inp))) \<and>
            dict_get (last (records_of sh')) ''fat_g'' = Some (Num (py_round1 (fat inp))) \<and>
            dict_get (last (records_of sh')) ''calories'' = Some (Num (py_round1 (calories inp)))"
    using meal_record_values [of rows inp] by blast
  moreover have "\<forall>x. is_tenth (py_round1 x) \<and> \<bar>py_round1 x - x\<bar> \<le> 1 / 20"
    using py_round1_tenth py_round1_near by blast
  ultimately show ?thesis by blast
qed

lemma inputs_ex_rounded:
  "py_round1 (qty inputs_ex) = 100" "py_round1 (protein inputs_ex) = 51 / 5"
  "py_round1 (carbs inputs_ex) = 30" "py_round1 (fat inputs_ex) = 5"
  "py_round1 (calories inputs_ex) = 201 / 2"
  by code_simp+

theorem persisted_values_rounded_witness:
  "(\<exists>sh'. sheet_of (snd (add_food_handler inputs_ex (world_ex [] [] []))) MEALS_SHEET = Some sh' \<and>
      length sh' = 2 \<and>
      dict_get (last (records_of sh')) ''grams'' = Some (Num 100) \<and>
      dict_get (last (records_of sh')) ''protein_g'' = Some (Num (51 / 5)) \<and>
      dict_get (last (records_of sh')) ''carbs_g'' = Some (Num 30) \<and>
      dict_get (last (records_of sh')) ''fat_g'' = Some (Num 5) \<and>
      dict_get (last (records_of sh')) ''calories'' = Some (Num (201 / 2))) \<and>
   is_tenth (py_round1 (2513 / 25)) \<and> \<bar>py_round1 (2513 / 25) - 2513 / 25\<bar> \<le> 1 / 20"
proof -
  have h1: "add_btn inputs_ex" and h2: "food_item inputs_ex \<noteq> []"
    by (simp_all add: inputs_ex_def)
  have h3: "sheet_of (world_ex [] [] []) MEALS_SHEET = Some (meals_header # [])"
    by (simp add: world_ex_def sheet_of_def)
  have h4: "fst (append_row MEALS_SHEET (meal_row inputs_ex) (world_ex [] [] [])) = Inr ()"
    by (simp add: append_row_def remote_call_def world_ex_def sheet_of_def)
  note th = persisted_values_rounded [OF h1 h2 h3 h4]
  from th have "\<exists>sh'. sheet_of (snd (add_food_handler inputs_ex (world_ex [] [] []))) MEALS_SHEET = Some sh' \<and>
      length sh' = Suc (length [meals_header]) \<and>
      dict_get (last (records_of sh')) ''grams'' = Some (Num (py_round1 (qty inputs_ex))) \<and>
      dict_get (last (records_of sh')) ''protein_g'' = Some (Num (py_round1 (protein inputs_ex))) \<and>
      dict_get (last (records_of sh')) ''carbs_g'' = Some (Num (py_round1 (carbs inputs_ex))) \<and>
      dict_get (last (records_of sh')) ''fat_g'' = Some (Num (py_round1 (fat inputs_ex))) \<and>
      dict_get (last (records_of sh')) ''calories'' = Some (Num (py_round1 (calories inputs_ex)))"
    by blast
  then have e: "\<exists>sh'. sheet_of (snd (add_food_handler inputs_ex (world_ex [] [] []))) MEALS_SHEET = Some sh' \<and>
      length sh' = 2 \<and>
      dict_get (last (records_of sh')) ''grams'' = Some (Num 100) \<and>
      dict_get (last (records_of sh')) ''protein_g'' = Some (Num (51 / 5)) \<and>
      dict_get (last (records_of sh')) ''carbs_g'' = Some (Num 30) \<and>
      dict_get (last (records_of sh')) ''fat_g'' = Some (Num 5) \<and>
      dict_get (last (records_of sh')) ''calories'' = Some (Num (201 / 2))"
    by (simp add: inputs_ex_rounded numeral_2_eq_2)
  from th have t: "is_tenth (py_round1 (2513 / 25)) \<and> \<bar>py_round1 (2513 / 25) - 2513 / 25\<bar> \<le> 1 / 20"
    by blast
  from e t show ?thesis by blast
qed

lemma append_row_other_sheet:
  "ws \<noteq> other \<Longrightarrow>
   append_row ws r (w\<lparr>sheets := put_sheet other g (sheets w)\<rparr>) =
     (fst (append_row ws r w),
      (snd (append_row ws r w))\<lparr>sheets := put_sheet other g (sheets (snd (append_row ws r w)))\<rparr>)"
  by (auto simp: append_row_def remote_call_def sheet_of_def map_of_put_other put_sheet_commute
      split: list.splits bool.splits option.splits)

lemma meals_not_goals: "MEALS_SHEET \<noteq> GOALS_SHEET"
  by (simp add: MEALS_SHEET_def GOALS_SHEET_def)

lemma add_food_handler_ignores_goals:
  "add_food_handler inp (w\<lparr>sheets := put_sheet GOALS_SHEET g (sheets w)\<rparr>) =
     (fst (add_food_handler inp w),
      (snd (add_food_handler inp w))\<lparr>sheets :=
         put_sheet GOALS_SHEET g (sheets (snd (add_food_handler inp w)))\<rparr>)"
proof (cases "append_row MEALS_SHEET (meal_row inp) w")
  case (Pair res w')
  with append_row_other_sheet [OF meals_not_goals, where r = "meal_row inp" and w = w and g = g]
  have "append_row MEALS_SHEET (meal_row inp) (w\<lparr>sheets := put_sheet GOALS_SHEET g (sheets w)\<rparr>)
          = (res, w'\<lparr>sheets := put_sheet GOALS_SHEET g (sheets w')\<rparr>)"
    by simp
  with Pair show ?thesis
    by (cases res)
       (simp_all add: add_food_handler_def append_meal_row_def st_warning_def st_success_def st_error_def)
qed

lemma add_food_handler_calls:
  "faults (snd (add_food_handler inp w)) = faults w \<or>
   faults (snd (add_food_handler inp w)) = tl (faults w)"
  by (auto simp: add_food_handler_def append_meal_row_def append_row_def remote_call_def
      st_warning_def st_success_def st_error_def split: list.splits bool.splits option.splits)

text \<open>
  C10. The add-food handler makes at most one remote call, the append, and its result and
  its effect are the same whatever the Goals worksheet holds. A written row, read back
  through the declared header, has the two goal widgets' values under
  \<open>daily_calorie_goal\<close> and \<open>daily_protein_goal\<close>. So the snapshot can differ
  from the goal stored for the entry's month: it does in the example, where the table
  holds 1700 for May 2024 and the widget holds 2000.
\<close>

theorem goal_snapshot_from_widgets:
  "(add_btn inp \<and> food_item inp \<noteq> [] \<and> sheet_of w MEALS_SHEET = Some (meals_header # rows) \<and>
    fst (append_row MEALS_SHEET (meal_row inp) w) = Inr () \<longrightarrow>
      (\<exists>sh'. sheet_of (snd (add_food_handler inp w)) MEALS_SHEET = Some sh' \<and>
         dict_get (last (records_of sh')) ''daily_calorie_goal''
           = Some (Num (of_int (calorie_goal_input inp))) \<and>
         dict_get (last (records_of sh')) ''daily_protein_goal''
           = Some (Num (of_int (protein_goal_input inp))))) \<and>
   add_food_handler inp (w\<lparr>sheets := put_sheet GOALS_SHEET g (sheets w)\<rparr>) =
     (fst (add_food_handler inp w),
      (snd (add_food_handler inp w))\<lparr>sheets :=
         put_sheet GOALS_SHEET g (sheets (snd (add_food_handler inp w)))\<rparr>) \<and>
   (faults (snd (add_food_handler inp w)) = faults w \<or>
    faults (snd (add_food_handler inp w)) = tl (faults w)) \<and>
   (\<exists>goal_row sh'.
      find (\<lambda>r. dict_get r ''month_year'' = Some (Str (strftime_ym (entry_date inputs_ex))))
        (records_of (goals_header # goal_rows_ex)) = Some goal_row \<and>
      dict_get goal_row ''calorie_goal'' = Some (Num 1700) \<and>
      sheet_of (snd (add_food_handler inputs_ex (world_ex [] goal_rows_ex []))) MEALS_SHEET = Some sh' \<and>
      dict_get (last (records_of sh')) ''daily_calorie_goal'' = Some (Num 2000))"
proof (intro conjI impI)
  assume a: "add_btn inp \<and> food_item inp \<noteq> [] \<and> sheet_of w MEALS_SHEET = Some (meals_header # rows) \<and>
    fst (append_row MEALS_SHEET (meal_row inp) w) = Inr ()"
  then have "sheet_of (snd (add_food_handler inp w)) MEALS_SHEET
          = Some ((meals_header # rows) @ [meal_row inp])"
    by (intro add_food_handler_written) simp_all
  then have "sheet_of (snd (add_food_handler inp w)) MEALS_SHEET
          = Some (meals_header # rows @ [meal_row inp])"
    by simp
  then show "\<exists>sh'. sheet_of (snd (add_food_handler inp w)) MEALS_SHEET = Some sh' \<and>
         dict_get (last (records_of sh')) ''daily_calorie_goal''
           = Some (Num (of_int (calorie_goal_input inp))) \<and>
         dict_get (last (records_of sh')) ''daily_protein_goal''
           = Some (Num (of_int (protein_goal_input inp)))"
    using meal_record_values(6,7) [of rows inp] by blast
next
  show "add_food_handler inp (w\<lparr>sheets := put_sheet GOALS_SHEET g (sheets w)\<rparr>) =
     (fst (add_food_handler inp w),
      (snd (add_food_handler inp w))\<lparr>sheets :=
         put_sheet GOALS_SHEET g (sheets (snd (add_food_handler inp w)))\<rparr>)"
    by (rule add_food_handler_ignores_goals)
next
  show "faults (snd (add_food_handler inp w)) = faults w \<or>
    faults (snd (add_food_handler inp w)) = tl (faults w)"
    by (rule add_food_handler_calls)
next
  have 1: "find (\<lambda>r. dict_get r ''month_year'' = Some (Str (strftime_ym (entry_date inputs_ex))))
        (records_of (goals_header # goal_rows_ex))
      = Some (zip goals_header [Str ''2024-05'', Num 1700, Num 80, Str ''2024-05-01T09:00:00''])"
    by code_simp
  have 2: "dict_get (zip goals_header [Str ''2024-05'', Num 1700, Num 80, Str ''2024-05-01T09:00:00''])
             ''calorie_goal'' = Some (Num 1700)"
    by code_simp
  have 3: "sheet_of (snd (add_food_handler inputs_ex (world_ex [] goal_rows_ex []))) MEALS_SHEET
      = Some [meals_header, meal_row inputs_ex]"
    by code_simp
  have 4: "dict_get (last (records_of [meals_header, meal_row inputs_ex])) ''daily_calorie_goal''
      = Some (Num 2000)"
    by code_simp
  from 1 2 3 4 show "\<exists>goal_row sh'.
      find (\<lambda>r. dict_get r ''month_year'' = Some (Str (strftime_ym (entry_date inputs_ex))))
        (records_of (goals_header # goal_rows_ex)) = Some goal_row \<and>
      dict_get goal_row ''calorie_goal'' = Some (Num 1700) \<and>
      sheet_of (snd (add_food_handler inputs_ex (world_ex [] goal_rows_ex []))) MEALS_SHEET = Some sh' \<and>
      dict_get (last (records_of sh')) ''daily_calorie_goal'' = Some (Num 2000)"
    by blast
qed

theorem goal_snapshot_from_widgets_witness:
  "\<exists>sh'. sheet_of (snd (add_food_handler inputs_ex (world_ex [] goal_rows_ex []))) MEALS_SHEET = Some sh' \<and>
      dict_get (last (records_of sh')) ''daily_calorie_goal'' = Some (Num 2000) \<and>
      dict_get (last (records_of sh')) ''daily_protein_goal'' = Some (Num 100)"
proof -
  have h: "add_btn inputs_ex \<and> food_item inputs_ex \<noteq> [] \<and>
      sheet_of (world_ex [] goal_rows_ex []) MEALS_SHEET = Some (meals_header # []) \<and>
      fst (append_row MEALS_SHEET (meal_row inputs_ex) (world_ex [] goal_rows_ex [])) = Inr ()"
    by (simp add: inputs_ex_def append_row_def remote_call_def world_ex_def sheet_of_def)
  have v: "calorie_goal_input inputs_ex = 2000" "protein_goal_input inputs_ex = 100"
    by (simp_all add: inputs_ex_def)
  from goal_snapshot_from_widgets [of inputs_ex "world_ex [] goal_rows_ex []" "[]" "[]"] h
  have "\<exists>sh'. sheet_of (snd (add_food_handler inputs_ex (world_ex [] goal_rows_ex []))) MEALS_SHEET = Some sh' \<and>
         dict_get (last (records_of sh')) ''daily_calorie_goal''
           = Some (Num (of_int (calorie_goal_input inputs_ex))) \<and>
         dict_get (last (records_of sh')) ''daily_protein_goal''
           = Some (Num (of_int (protein_goal_input inputs_ex)))"
    by blast
  then show ?thesis by (simp add: v)
qed

subsection \<open>Daily summary\<close>

lemma get_all_records_fields [simp]:
  "sheets (snd (get_all_records ws w)) = sheets w" "ui (snd (get_all_records ws w)) = ui w"
  by (simp_all add: get_all_records_def remote_call_def split: list.splits bool.splits option.splits)

lemma daily_summary_fetch_failed:
  assumes "fst (get_all_records MEALS_SHEET w) = Inl e"
  shows "daily_summary inp w =
    (Inr NoEntriesYet,
     (snd (get_all_records MEALS_SHEET w))\<lparr>ui := ui w @
        [Error (''Failed to fetch meals: '' @ exn_text e), Info ''No food entries yet.'']\<rparr>)"
proof (cases "get_all_records MEALS_SHEET w")
  case (Pair res w')
  with assms have res: "res = Inl e" by simp
  from get_all_records_fields(2) [of MEALS_SHEET w] Pair have "ui w' = ui w" by simp
  with Pair res show ?thesis
    by (simp add: daily_summary_def fetch_meals_def DataFrame_def df_empty_def st_error_def st_info_def)
qed

text \<open>
  C9 as stated fails for a failure in parsing: the conversion of the fetched cells to
  numbers happens after the guarded block. On a meal table with a blank cell in a summed
  column the summary raises \<open>ValueError\<close>; the exception leaves the section and the
  run, no banner is shown and the note that was submitted in the same run is not saved.
\<close>

theorem blank_cell_propagates:
  "fst (get_all_records MEALS_SHEET blank_cell_world_ex) =
     Inr [zip summary_header_ex [Str ''2024-05-07'', Str [], Num 70, Num 100, Num 20, Num 5]] \<and>
   daily_summary (inputs_ex\<lparr>add_btn := False, save_note_btn := True\<rparr>) blank_cell_world_ex
     = (Inl ValueError, blank_cell_world_ex) \<and>
   app (inputs_ex\<lparr>add_btn := False, save_note_btn := True\<rparr>) blank_cell_world_ex
     = (Inl ValueError, blank_cell_world_ex) \<and>
   ui blank_cell_world_ex = [] \<and>
   sheet_of blank_cell_world_ex NOTES_SHEET = Some [notes_header]"
  by code_simp

text \<open>
  C9, amended. When the fetch of the meal table raises inside the summary section, the
  exception is caught there: the section shows ``Failed to fetch meals'' with the error
  text, continues with an empty data set, reports ``No food entries yet.'', writes
  nothing, and returns normally, so that the notes section after it runs.
\<close>

theorem fetch_failure_degrades:
  assumes "fst (get_all_records MEALS_SHEET w) = Inl e"
  shows "fst (daily_summary inp w) = Inr NoEntriesYet \<and>
         sheets (snd (daily_summary inp w)) = sheets w \<and>
         ui (snd (daily_summary inp w)) = ui w @
           [Error (''Failed to fetch meals: '' @ exn_text e), Info ''No food entries yet.''] \<and>
         then_io (daily_summary inp) (\<lambda>view. then_io (save_note_handler inp) (\<lambda>_. return_io view)) w
           = (Inr NoEntriesYet, snd (save_note_handler inp (snd (daily_summary inp w))))"
proof -
  note eq = daily_summary_fetch_failed [OF assms, of inp]
  have 1: "fst (daily_summary inp w) = Inr NoEntriesYet" by (simp only: eq fst_conv)
  have 2: "sheets (snd (daily_summary inp w)) = sheets w" by (simp only: eq snd_conv) simp
  have 3: "ui (snd (daily_summary inp w)) = ui w @
           [Error (''Failed to fetch meals: '' @ exn_text e), Info ''No food entries yet.'']"
    by (simp only: eq snd_conv) simp
  obtain w' where w': "daily_summary inp w = (Inr NoEntriesYet, w')"
    using 1 by (cases "daily_summary inp w") simp
  obtain w'' where w'': "save_note_handler inp w' = (Inr (), w'')"
    using save_note_handler_returns [of inp w'] by (cases "save_note_handler inp w'") simp
  have 4: "then_io (daily_summary inp) (\<lambda>view. then_io (save_note_handler inp) (\<lambda>_. return_io view)) w
           = (Inr NoEntriesYet, snd (save_note_handler inp (snd (daily_summary inp w))))"
    by (simp add: then_io_def return_io_def w' w'')
  from 1 2 3 4 show ?thesis by blast
qed

theorem fetch_failure_degrades_witness:
  "fst (daily_summary (inputs_ex\<lparr>save_note_btn := True\<rparr>) (world_ex [] [] [True])) = Inr NoEntriesYet \<and>
   sheets (snd (daily_summary (inputs_ex\<lparr>save_note_btn := True\<rparr>) (world_ex [] [] [True])))
     = sheets (world_ex [] [] [True]) \<and>
   ui (snd (daily_summary (inputs_ex\<lparr>save_note_btn := True\<rparr>) (world_ex [] [] [True])))
     = [Error ''Failed to fetch meals: APIError'', Info ''No food entries yet.''] \<and>
   then_io (daily_summary (inputs_ex\<lparr>save_note_btn := True\<rparr>))
       (\<lambda>view. then_io (save_note_handler (inputs_ex\<lparr>save_note_btn := True\<rparr>)) (\<lambda>_. return_io view))
       (world_ex [] [] [True])
     = (Inr NoEntriesYet,
        snd (save_note_handler (inputs_ex\<lparr>save_note_btn := True\<rparr>)
               (snd (daily_summary (inputs_ex\<lparr>save_note_btn := True\<rparr>) (world_ex [] [] [True])))))"
proof -
  have h: "fst (get_all_records MEALS_SHEET (world_ex [] [] [True])) = Inl APIError"
    by (simp add: get_all_records_def remote_call_def world_ex_def)
  have u: "ui (world_ex [] [] [True]) = []" by (simp add: world_ex_def)
  from fetch_failure_degrades [OF h, of "inputs_ex\<lparr>save_note_btn := True\<rparr>"] u
  show ?thesis by simp
qed

lemma map_fst_zip_same: "length ys = length xs \<Longrightarrow> map fst (zip xs ys) = xs"
  by (simp add: map_fst_zip)

lemma records_keys:
  assumes "rec \<in> set (records_of (hdr # rows))"
  shows "map fst rec = pad_row (width (hdr # rows)) hdr"
proof -
  let ?n = "width (hdr # rows)"
  from assms obtain r where r: "r \<in> set rows" "rec = zip (pad_row ?n hdr) (pad_row ?n r)"
    by (auto simp: records_of_Cons)
  have "length hdr \<le> ?n" by (rule width_ge) simp
  moreover have "length r \<le> ?n" using r(1) by (intro width_ge) simp
  ultimately have "length (pad_row ?n r) = length (pad_row ?n hdr)"
    by (simp add: length_pad_row)
  with r(2) show ?thesis by (simp add: map_fst_zip_same)
qed

lemma DataFrame_columns:
  assumes "rows \<noteq> []"
  shows "set (fst (DataFrame (records_of (hdr # rows)))) = set (pad_row (width (hdr # rows)) hdr)"
proof -
  let ?recs = "records_of (hdr # rows)"
  have ne: "?recs \<noteq> []" using assms by (simp add: records_of_Cons)
  have "set (fst (DataFrame ?recs)) = (\<Union>rec \<in> set ?recs. set (map fst rec))"
    by (simp add: DataFrame_def)
  also have "\<dots> = (\<Union>rec \<in> set ?recs. set (pad_row (width (hdr # rows)) hdr))"
    by (simp add: records_keys)
  also have "\<dots> = set (pad_row (width (hdr # rows)) hdr)"
    using ne by auto
  finally show ?thesis .
qed

lemma meals_columns:
  assumes "rows \<noteq> []"
  shows "Str ''date'' \<in> set (fst (DataFrame (records_of (meals_header # rows))))"
    and "Str ''calories_kcal'' \<notin> set (fst (DataFrame (records_of (meals_header # rows))))"
  using assms by (auto simp: DataFrame_columns pad_row_def meals_header_def)

lemma meal_records_date:
  assumes "k < length rows"
  shows "dict_get (records_of (meals_header # rows) ! k) ''date'' = Some (date_cell (rows ! k))"
proof -
  let ?n = "width (meals_header # rows)"
  have h: "length meals_header \<le> ?n" by (rule width_ge) simp
  have r: "length (rows ! k) \<le> ?n" using assms by (intro width_ge) simp
  have "dict_get (zip (pad_row ?n meals_header) (pad_row ?n (rows ! k))) ''date''
          = Some (pad_row ?n (rows ! k) ! 0)"
    using h r by (intro header_lookup) (simp_all add: meals_header_def)
  moreover have "0 < ?n" using h by (simp add: meals_header_def)
  then have "pad_row ?n (rows ! k) ! 0 = date_cell (rows ! k)"
    by (simp add: pad_row_0 date_cell_def month_year_cell_def)
  ultimately show ?thesis using assms by (simp add: records_of_Cons)
qed

lemma day_totals_missing_column:
  "Str ''calories_kcal'' \<notin> set (fst df) \<Longrightarrow> day_totals df = Inl (KeyError ''calories_kcal'')"
  by (simp add: day_totals_def col_sum_def df_col_def)

lemma daily_summary_declared_schema:
  assumes rel: "reliable w" and sh: "sheet_of w MEALS_SHEET = Some (meals_header # rows)"
    and day: "\<exists>r \<in> set rows. date_cell r = Str (strftime_ymd (summary_date inp))"
  shows "daily_summary inp w = (Inl (KeyError ''calories_kcal''), spend w)"
proof -
  let ?recs = "records_of (meals_header # rows)"
  let ?df = "DataFrame ?recs"
  let ?day = "strftime_ymd (summary_date inp)"
  let ?dates = "map (\<lambda>r. dict_get r ''date'') ?recs"
  from day have ne: "rows \<noteq> []" by auto
  have fetch: "fetch_meals w = (?recs, spend w)"
    using rel sh by (simp add: fetch_meals_def get_all_records_reliable)
  have snd_df: "snd ?df = ?recs" by (simp add: DataFrame_def)
  have cols: "fst ?df \<noteq> []" using meals_columns(1) [OF ne] by auto
  have "?recs \<noteq> []" using ne by (simp add: records_of_Cons)
  then have nonempty: "\<not> df_empty ?df"
    using cols by (simp add: df_empty_def snd_df)
  have col: "df_col ?df ''date'' = Inr ?dates"
    using meals_columns(1) [OF ne] by (simp add: df_col_def snd_df)
  from day obtain k where k: "k < length rows" "date_cell (rows ! k) = Str ?day"
    by (auto simp: in_set_conv_nth)
  have "(?recs ! k, ?dates ! k) \<in> set (zip ?recs ?dates)"
    using k(1) by (auto simp: in_set_zip)
  moreover have "?dates ! k = Some (Str ?day)"
    using k by (simp add: meal_records_date)
  ultimately have "\<exists>rd \<in> set (zip ?recs ?dates). snd rd = Some (Str ?day)"
    by (metis snd_conv)
  then have "filter (\<lambda>rd. snd rd = Some (Str ?day)) (zip ?recs ?dates) \<noteq> []"
    by (simp add: filter_empty_conv)
  then have sel: "\<not> df_empty (df_select ?df ?dates ?day)"
    using cols by (simp add: df_empty_def df_select_def snd_df)
  have "Str ''calories_kcal'' \<notin> set (fst (df_select ?df ?dates ?day))"
    using meals_columns(2) [OF ne] by (simp add: df_select_def)
  then have tot: "day_totals (df_select ?df ?dates ?day) = Inl (KeyError ''calories_kcal'')"
    by (rule day_totals_missing_column)
  show ?thesis
    unfolding daily_summary_def fetch
    using nonempty col sel tot by (simp add: Let_def)
qed

text \<open>
  C1. The summary does filter the meal rows by the date string, but it then sums the
  columns \<open>calories_kcal\<close>, \<open>protein_g\<close>, \<open>carbs_g\<close>, \<open>fat_g\<close> and
  \<open>fiber_g\<close>, while the meal table the program itself creates has the column
  \<open>calories\<close> and no fibre column. On every meal table with the declared header
  that holds a row for the selected date, and with the store answering, the summary
  raises \<open>KeyError\<close> for \<open>calories_kcal\<close> instead of computing the sums.
\<close>

theorem daily_summary_raises_on_declared_schema:
  assumes "reliable w" and "sheet_of w MEALS_SHEET = Some (meals_header # rows)"
    and "\<exists>r \<in> set rows. date_cell r = Str (strftime_ymd (summary_date inp))"
  shows "fst (daily_summary inp w) = Inl (KeyError ''calories_kcal'')"
  using daily_summary_declared_schema [OF assms] by simp

theorem daily_summary_raises_on_declared_schema_witness:
  "fst (daily_summary inputs_ex (world_ex meal_rows_ex [] [])) = Inl (KeyError ''calories_kcal'') \<and>
   fst (app inputs_ex \<lparr>sheets = [], faults = [], ui = []\<rparr>) = Inl (KeyError ''calories_kcal'')"
proof -
  have h1: "reliable (world_ex meal_rows_ex [] [])" by (rule reliable_world_ex)
  have h2: "sheet_of (world_ex meal_rows_ex [] []) MEALS_SHEET = Some (meals_header # meal_rows_ex)"
    by (simp add: world_ex_def sheet_of_def)
  have "strftime_ymd (summary_date inputs_ex) = ''2024-05-07''" by code_simp
  then have h3: "\<exists>r \<in> set meal_rows_ex. date_cell r = Str (strftime_ymd (summary_date inputs_ex))"
    by (simp add: meal_rows_ex_def date_cell_def)
  have a: "fst (app inputs_ex \<lparr>sheets = [], faults = [], ui = []\<rparr>) = Inl (KeyError ''calories_kcal'')"
    by code_simp
  from daily_summary_raises_on_declared_schema [OF h1 h2 h3] a show ?thesis by simp
qed

lemma fetch_meals_sheets [simp]: "sheets (snd (fetch_meals w)) = sheets w"
  by (cases "get_all_records MEALS_SHEET w")
     (auto simp: fetch_meals_def st_error_def get_all_records_def remote_call_def
        split: sum.splits list.splits bool.splits option.splits)







end
